theory Spec2Isabelle
  imports Main
begin

section \<open>Strings, paths and file names\<close>

text \<open>
  Python strings are modelled as \<^typ>\<open>string\<close>: the code points below 256. The functions of
  this section are the library functions that
  \<^verbatim>\<open>__create_plate_pcb_from_layer\<close> and \<^verbatim>\<open>produce\<close> apply to file
  names: \<^verbatim>\<open>str.replace\<close>, and \<^verbatim>\<open>os.path.split\<close>,
  \<^verbatim>\<open>os.path.join\<close> and \<^verbatim>\<open>os.path.splitext\<close> in their POSIX versions.
\<close>

definition startswith :: "string \<Rightarrow> string \<Rightarrow> bool" where
  "startswith s p = (take (length p) s = p)"

text \<open>
  \<^verbatim>\<open>s.replace(old, new)\<close> for a non-empty \<^verbatim>\<open>old\<close>: the occurrences of
  \<^verbatim>\<open>old\<close> are found from left to right, each search starting after the previous occurrence,
  and every one of them is replaced.
\<close>

function replace_nonempty :: "string \<Rightarrow> string \<Rightarrow> string \<Rightarrow> string" where
  "replace_nonempty [] old new = []"
| "replace_nonempty (c # cs) old new =
     (if old \<noteq> [] \<and> startswith (c # cs) old
      then new @ replace_nonempty (drop (length old) (c # cs)) old new
      else c # replace_nonempty cs old new)"
  by pat_completeness auto
termination
  by (relation "measure (\<lambda>(s, old, new). length s)") (auto simp: neq_Nil_conv)

text \<open>With an empty \<^verbatim>\<open>old\<close>, Python puts \<^verbatim>\<open>new\<close> before every character and at the end.\<close>

definition str_replace :: "string \<Rightarrow> string \<Rightarrow> string \<Rightarrow> string" where
  "str_replace s old new =
     (if old = [] then new @ concat (map (\<lambda>c. c # new) s) else replace_nonempty s old new)"

text \<open>\<^verbatim>\<open>old in s\<close>: some position of \<^verbatim>\<open>s\<close> starts an occurrence of \<^verbatim>\<open>old\<close>.\<close>

fun contains :: "string \<Rightarrow> string \<Rightarrow> bool" where
  "contains [] old = (old = [])"
| "contains (c # cs) old = (startswith (c # cs) old \<or> contains cs old)"

text \<open>
  \<^verbatim>\<open>posixpath.split\<close>: the tail is what follows the last slash; the head is what precedes
  it, without its trailing slashes unless it consists of slashes only.
\<close>

definition rstrip_slash :: "string \<Rightarrow> string" where
  "rstrip_slash s = rev (dropWhile (\<lambda>c. c = CHR ''/'') (rev s))"

definition path_split :: "string \<Rightarrow> string \<times> string" where
  "path_split p =
     (let tail = rev (takeWhile (\<lambda>c. c \<noteq> CHR ''/'') (rev p));
          head = take (length p - length tail) p
      in (if head \<noteq> [] \<and> \<not> (\<forall>c \<in> set head. c = CHR ''/'') then rstrip_slash head else head,
          tail))"

text \<open>\<^verbatim>\<open>posixpath.join(a, b)\<close> with two arguments.\<close>

definition path_join :: "string \<Rightarrow> string \<Rightarrow> string" where
  "path_join a b =
     (if startswith b ''/'' then b
      else if a = [] \<or> last a = CHR ''/'' then a @ b
      else a @ ''/'' @ b)"

text \<open>
  \<^verbatim>\<open>posixpath.splitext\<close> on a name without a slash: the extension starts at the last dot,
  unless only dots precede that dot.
\<close>

definition path_splitext :: "string \<Rightarrow> string \<times> string" where
  "path_splitext p =
     (let ext = rev (takeWhile (\<lambda>c. c \<noteq> CHR ''.'') (rev p));
          n = length p - length ext - 1
      in if CHR ''.'' \<in> set p \<and> (\<exists>c \<in> set (take n p). c \<noteq> CHR ''.'')
         then (take n p, drop n p) else (p, []))"

text \<open>
  Lines 137-138: the name of the plate file, and its path in the output folder.
\<close>

definition plate_file_name :: "string \<Rightarrow> string \<Rightarrow> string" where
  "plate_file_name board_filename plate_file_name_suffix =
     str_replace board_filename ''.kicad_pcb'' (''-'' @ plate_file_name_suffix @ ''.kicad_pcb'')"

definition plate_file_path :: "string \<Rightarrow> string \<Rightarrow> string \<Rightarrow> string" where
  "plate_file_path board_file output_folder plate_file_name_suffix =
     path_join output_folder
       (plate_file_name (snd (path_split board_file)) plate_file_name_suffix)"

section \<open>Boards, footprints, pads and graphics\<close>

text \<open>
  The entities of \<^verbatim>\<open>pcbnew\<close> that the plugin reads and writes, with the attributes it
  touches. A layer is its numeric identifier, a layer set (\<^verbatim>\<open>LSET\<close>) a set of them, a
  point a pair of coordinates, a box its origin and its size.
\<close>

type_synonym layer = int
type_synonym point = "int \<times> int"
type_synonym box = "point \<times> point"

datatype pad_shape =
  PAD_SHAPE_CIRCLE | PAD_SHAPE_RECT | PAD_SHAPE_OVAL | PAD_SHAPE_TRAPEZOID
  | PAD_SHAPE_ROUNDRECT | PAD_SHAPE_CHAMFERED_RECT | PAD_SHAPE_CUSTOM

datatype pad_attrib = PAD_ATTRIB_PTH | PAD_ATTRIB_SMD | PAD_ATTRIB_CONN | PAD_ATTRIB_NPTH

datatype pad_drill_shape = PAD_DRILL_SHAPE_CIRCLE | PAD_DRILL_SHAPE_OBLONG

text \<open>A drawing of a board: its class name, its layer and its geometry.\<close>

record drawing =
  d_class :: string
  d_layer :: layer
  d_geometry :: box

record pad =
  p_shape :: pad_shape
  p_attribute :: pad_attrib
  p_layers :: "layer set"
  p_position :: point
  p_size :: point
  p_drill_shape :: pad_drill_shape
  p_drill_size :: point

text \<open>A graphical item of a footprint.\<close>

record graphic =
  g_layer :: layer
  g_geometry :: box

record footprint =
  f_reference :: string
  f_position :: point
  f_pads :: "pad list"
  f_graphics :: "graphic list"

record board =
  b_filename :: string
  b_drawings :: "drawing list"
  b_footprints :: "footprint list"

datatype error = UnresolvableLayer string | IOFailure string

text \<open>
  What \<^verbatim>\<open>pcbnew\<close>, \<^verbatim>\<open>shutil\<close> and the file system do is not code of the plugin:
  it is a parameter of the model. A call that can raise returns an \<^typ>\<open>error\<close>.
  \<^item> \<open>GetLayerID\<close>: \<^verbatim>\<open>plate_pcb.GetLayerID(name)\<close>, on the new plate board;
  \<^item> \<open>GetBoardEdgesBoundingBox\<close>, \<open>GetArea\<close>: the box of a board's edge cuts, and the area
    of a box;
  \<^item> \<open>GetBoundingBox\<close>, \<open>Intersects\<close>: the box of a footprint, and the intersection test
    \<^verbatim>\<open>a.Intersects(b)\<close>;
  \<^item> \<open>UnplatedHoleMask\<close>: the layer set \<^verbatim>\<open>pad.UnplatedHoleMask()\<close>;
  \<^item> \<open>Save\<close>: \<^verbatim>\<open>plate_pcb.Save(path)\<close>;
  \<^item> \<open>plot_gerbers\<close>, \<open>write_drill_files\<close>, \<open>make_archive\<close>: the plotting of
    \<^verbatim>\<open>__create_gerbers\<close>, the writer of \<^verbatim>\<open>__create_drill_file\<close> and
    \<^verbatim>\<open>shutil.make_archive\<close>.
\<close>

record host =
  GetLayerID :: "string \<Rightarrow> error + layer"
  GetBoardEdgesBoundingBox :: "board \<Rightarrow> box"
  GetArea :: "box \<Rightarrow> int"
  GetBoundingBox :: "footprint \<Rightarrow> box"
  Intersects :: "box \<Rightarrow> box \<Rightarrow> bool"
  UnplatedHoleMask :: "layer set"
  Save :: "string \<Rightarrow> board \<Rightarrow> error option"
  plot_gerbers :: "board \<Rightarrow> string \<Rightarrow> error option"
  write_drill_files :: "board \<Rightarrow> string \<Rightarrow> error option"
  make_archive :: "string \<Rightarrow> string \<Rightarrow> error option"

text \<open>
  The effects of the plugin on the file system: the board files saved, and the artifacts
  written, both in the order of the calls.
\<close>

datatype artifact = Gerbers board string | DrillFiles board string | Archive string string

record world =
  saved :: "(string \<times> board) list"
  artifacts :: "artifact list"

section \<open>The entity operations\<close>

text \<open>
  \<^verbatim>\<open>pcbnew.NewBoard(path)\<close>: an empty board with that file name.
\<close>

definition NewBoard :: "string \<Rightarrow> board" where
  "NewBoard path = \<lparr>b_filename = path, b_drawings = [], b_footprints = []\<rparr>"

text \<open>\<^verbatim>\<open>plate_pcb.Add(item)\<close> appends to the collection of the item's kind.\<close>

definition Add_drawing :: "board \<Rightarrow> drawing \<Rightarrow> board" where
  "Add_drawing b d = b\<lparr>b_drawings := b_drawings b @ [d]\<rparr>"

definition Add_footprint :: "board \<Rightarrow> footprint \<Rightarrow> board" where
  "Add_footprint b f = b\<lparr>b_footprints := b_footprints b @ [f]\<rparr>"

text \<open>
  \<^verbatim>\<open>IsOnLayer\<close>: an item with one layer is on that layer; a pad is on the layers of its
  layer set.
\<close>

definition drawing_IsOnLayer :: "drawing \<Rightarrow> layer \<Rightarrow> bool" where
  "drawing_IsOnLayer d l = (d_layer d = l)"

definition pad_IsOnLayer :: "pad \<Rightarrow> layer \<Rightarrow> bool" where
  "pad_IsOnLayer p l = (l \<in> p_layers p)"

definition graphic_IsOnLayer :: "graphic \<Rightarrow> layer \<Rightarrow> bool" where
  "graphic_IsOnLayer g l = (g_layer g = l)"

text \<open>
  \<^verbatim>\<open>footprint.SetPosition(pos)\<close> moves the footprint and its pads and graphics by the
  difference between \<^verbatim>\<open>pos\<close> and the footprint's position.
\<close>

definition move :: "point \<Rightarrow> point \<Rightarrow> point" where
  "move delta p = (fst p + fst delta, snd p + snd delta)"

definition footprint_SetPosition :: "footprint \<Rightarrow> point \<Rightarrow> footprint" where
  "footprint_SetPosition f pos =
     (let delta = (fst pos - fst (f_position f), snd pos - snd (f_position f))
      in f\<lparr>f_position := move delta (f_position f),
           f_pads := map (\<lambda>p. p\<lparr>p_position := move delta (p_position p)\<rparr>) (f_pads f),
           f_graphics :=
             map (\<lambda>g. g\<lparr>g_geometry := (move delta (fst (g_geometry g)), snd (g_geometry g))\<rparr>)
               (f_graphics f)\<rparr>)"

text \<open>
  \<^verbatim>\<open>re.match(r'^(H|LOGO)\d+$', reference)\<close>. \<^verbatim>\<open>\d\<close> matches a decimal digit, which
  among the code points below 256 is one of 0 to 9, and \<^verbatim>\<open>$\<close> matches at the end of the
  string and before a line feed that ends it.
\<close>

definition is_digit :: "char \<Rightarrow> bool" where
  "is_digit c = (c \<in> set ''0123456789'')"

definition digits_to_end :: "string \<Rightarrow> bool" where
  "digits_to_end s =
     (let rest = dropWhile is_digit s
      in takeWhile is_digit s \<noteq> [] \<and> (rest = [] \<or> rest = [CHR 0x0A]))"

definition preserved_whole :: "string \<Rightarrow> bool" where
  "preserved_whole reference =
     (if startswith reference ''H'' then digits_to_end (drop 1 reference)
      else if startswith reference ''LOGO'' then digits_to_end (drop 4 reference)
      else False)"

section \<open>Plate derivation\<close>

text \<open>An exception leaves the computation at the call that raised it.\<close>

definition bind :: "error + 'a \<Rightarrow> ('a \<Rightarrow> error + 'b) \<Rightarrow> error + 'b" where
  "bind m k = (case m of Inl e \<Rightarrow> Inl e | Inr x \<Rightarrow> k x)"

text \<open>
  Lines 143-148, the body of the loop over the drawings: the duplicate to add to the plate,
  if any. The layer names are looked up anew for every drawing, in the order of evaluation
  of the two conditions (\<^verbatim>\<open>or\<close> and \<^verbatim>\<open>and\<close> evaluate their right operand only
  when the left one does not decide).
\<close>

definition copy_drawing :: "host \<Rightarrow> string \<Rightarrow> drawing \<Rightarrow> error + drawing option" where
  "copy_drawing H layer_name d =
     bind (GetLayerID H layer_name) (\<lambda>l.
       if drawing_IsOnLayer d l \<and> d_class d = ''PCB_SHAPE''
       then bind (GetLayerID H ''Edge.Cuts'') (\<lambda>e. Inr (Some (d\<lparr>d_layer := e\<rparr>)))
       else bind (GetLayerID H ''F.Silkscreen'') (\<lambda>f.
         if drawing_IsOnLayer d f
         then Inr (if d_class d = ''PTEXT'' then Some d else None)
         else bind (GetLayerID H ''B.Silkscreen'') (\<lambda>b.
           Inr (if drawing_IsOnLayer d b \<and> d_class d = ''PTEXT'' then Some d else None))))"

text \<open>Lines 142-148: the loop over the drawings of the source board.\<close>

fun copy_drawings :: "host \<Rightarrow> string \<Rightarrow> drawing list \<Rightarrow> board \<Rightarrow> error + board" where
  "copy_drawings H layer_name [] plate_pcb = Inr plate_pcb"
| "copy_drawings H layer_name (d # ds) plate_pcb =
     bind (copy_drawing H layer_name d) (\<lambda>r.
       copy_drawings H layer_name ds
         (case r of None \<Rightarrow> plate_pcb | Some new_drawing \<Rightarrow> Add_drawing plate_pcb new_drawing))"

text \<open>Lines 167-172: the conversion of a pad into an unplated hole, setter by setter.\<close>

definition to_npth :: "host \<Rightarrow> pad \<Rightarrow> pad" where
  "to_npth H p =
     (let drill_shape =
            (if p_shape p = PAD_SHAPE_CIRCLE then PAD_DRILL_SHAPE_CIRCLE
             else PAD_DRILL_SHAPE_OBLONG);
          p1 = p\<lparr>p_attribute := PAD_ATTRIB_NPTH\<rparr>;
          p2 = p1\<lparr>p_drill_shape := drill_shape\<rparr>;
          p3 = p2\<lparr>p_drill_size := p_size p2\<rparr>;
          p4 = p3\<lparr>p_layers := UnplatedHoleMask H\<rparr>
      in p4\<lparr>p_position := p_position p4\<rparr>)"

text \<open>
  The entries of \<^verbatim>\<open>remove_footprint_items\<close> are references to pads and graphics of the
  new footprint: here, the position of the item in the footprint's list of pads or of
  graphical items.
\<close>

datatype item_ref = PadRef nat | GraphicRef nat

text \<open>
  Lines 165-174: the loop over the pads of the new footprint, from the pad at position
  \<open>i\<close> on. It returns the pads, converted in place, and the list of items to remove.
\<close>

fun convert_pads ::
  "host \<Rightarrow> string \<Rightarrow> nat \<Rightarrow> pad list \<Rightarrow> item_ref list \<Rightarrow> error + (pad list \<times> item_ref list)"
where
  "convert_pads H layer_name i [] remove_footprint_items = Inr ([], remove_footprint_items)"
| "convert_pads H layer_name i (p # ps) remove_footprint_items =
     bind (GetLayerID H layer_name) (\<lambda>l.
       if pad_IsOnLayer p l \<and> p_shape p \<in> {PAD_SHAPE_CIRCLE, PAD_SHAPE_OVAL}
       then bind (convert_pads H layer_name (Suc i) ps remove_footprint_items)
              (\<lambda>(ps', rm). Inr (to_npth H p # ps', rm))
       else bind (convert_pads H layer_name (Suc i) ps (remove_footprint_items @ [PadRef i]))
              (\<lambda>(ps', rm). Inr (p # ps', rm)))"

text \<open>Lines 175-179: the loop over the graphical items of the new footprint.\<close>

fun convert_graphics ::
  "host \<Rightarrow> string \<Rightarrow> nat \<Rightarrow> graphic list \<Rightarrow> item_ref list \<Rightarrow>
     error + (graphic list \<times> item_ref list)"
where
  "convert_graphics H layer_name i [] remove_footprint_items = Inr ([], remove_footprint_items)"
| "convert_graphics H layer_name i (g # gs) remove_footprint_items =
     bind (GetLayerID H layer_name) (\<lambda>l.
       if graphic_IsOnLayer g l
       then bind (GetLayerID H ''Edge.Cuts'') (\<lambda>e.
              bind (convert_graphics H layer_name (Suc i) gs remove_footprint_items)
                (\<lambda>(gs', rm). Inr (g\<lparr>g_layer := e\<rparr> # gs', rm)))
       else bind (convert_graphics H layer_name (Suc i) gs (remove_footprint_items @ [GraphicRef i]))
              (\<lambda>(gs', rm). Inr (g # gs', rm)))"

text \<open>
  Lines 180-181: \<^verbatim>\<open>new_footprint.Remove(item)\<close> for every item of the list. The items
  that stay are those at the positions the list does not name.
\<close>

definition keep_unlisted :: "(nat \<Rightarrow> item_ref) \<Rightarrow> item_ref list \<Rightarrow> 'a list \<Rightarrow> 'a list" where
  "keep_unlisted ref remove_footprint_items xs =
     map snd (filter (\<lambda>(i, x). ref i \<notin> set remove_footprint_items) (enumerate 0 xs))"

definition remove_items :: "item_ref list \<Rightarrow> footprint \<Rightarrow> footprint" where
  "remove_items remove_footprint_items f =
     f\<lparr>f_pads := keep_unlisted PadRef remove_footprint_items (f_pads f),
       f_graphics := keep_unlisted GraphicRef remove_footprint_items (f_graphics f)\<rparr>"

text \<open>Lines 164-181: the filtering of the duplicate of an ordinary footprint.\<close>

definition filter_footprint :: "host \<Rightarrow> string \<Rightarrow> footprint \<Rightarrow> error + footprint" where
  "filter_footprint H layer_name new_footprint =
     bind (convert_pads H layer_name 0 (f_pads new_footprint) []) (\<lambda>(ps, rm1).
       bind (convert_graphics H layer_name 0 (f_graphics new_footprint) rm1) (\<lambda>(gs, rm2).
         Inr (remove_items rm2 (new_footprint\<lparr>f_pads := ps, f_graphics := gs\<rparr>))))"

text \<open>
  Lines 158-183, the body of the loop over the footprints: the footprint to add to the
  plate, if any.
\<close>

definition copy_footprint :: "host \<Rightarrow> string \<Rightarrow> box \<Rightarrow> footprint \<Rightarrow> error + footprint option"
where
  "copy_footprint H layer_name platebounds f =
     (if Intersects H (GetBoundingBox H f) platebounds
      then let new_footprint = footprint_SetPosition f (f_position f)
           in if preserved_whole (f_reference f) then Inr (Some new_footprint)
              else bind (filter_footprint H layer_name new_footprint) (\<lambda>nf.
                     Inr (if length (f_pads nf) > 0 \<or> length (f_graphics nf) > 0
                          then Some nf else None))
      else Inr None)"

text \<open>Lines 157-183: the loop over the footprints of the source board.\<close>

fun copy_footprints ::
  "host \<Rightarrow> string \<Rightarrow> box \<Rightarrow> footprint list \<Rightarrow> board \<Rightarrow> error + board" where
  "copy_footprints H layer_name platebounds [] plate_pcb = Inr plate_pcb"
| "copy_footprints H layer_name platebounds (f # fs) plate_pcb =
     bind (copy_footprint H layer_name platebounds f) (\<lambda>r.
       copy_footprints H layer_name platebounds fs
         (case r of None \<Rightarrow> plate_pcb | Some nf \<Rightarrow> Add_footprint plate_pcb nf))"

text \<open>
  \<^verbatim>\<open>__create_plate_pcb_from_layer\<close>. The result is the value returned or the exception
  raised, with the file system as the call leaves it.
\<close>

definition create_plate_pcb_from_layer ::
  "host \<Rightarrow> board \<Rightarrow> string \<Rightarrow> string \<Rightarrow> string \<Rightarrow> world \<Rightarrow> (error + board option) \<times> world"
where
  "create_plate_pcb_from_layer H board layer_name output_folder plate_file_name_suffix w =
     (let path = plate_file_path (b_filename board) output_folder plate_file_name_suffix
      in case copy_drawings H layer_name (b_drawings board) (NewBoard path) of
           Inl e \<Rightarrow> (Inl e, w)
         | Inr plate1 \<Rightarrow>
             (let platebounds = GetBoardEdgesBoundingBox H plate1
              in if GetArea H platebounds = 0 then (Inr None, w)
                 else (case copy_footprints H layer_name platebounds (b_footprints board) plate1 of
                         Inl e \<Rightarrow> (Inl e, w)
                       | Inr plate2 \<Rightarrow>
                           (let plate_pcb = plate2\<lparr>b_filename := path\<rparr>
                            in (case Save H path plate_pcb of
                                  Some e \<Rightarrow> (Inl e, w)
                                | None \<Rightarrow>
                                    (Inr (Some plate_pcb),
                                     w\<lparr>saved := saved w @ [(path, plate_pcb)]\<rparr>))))))"

section \<open>Production\<close>

text \<open>
  \<^verbatim>\<open>__create_gerbers\<close>, \<^verbatim>\<open>__create_drill_file\<close> and \<^verbatim>\<open>__create_zip\<close>
  configure and call the plotter, the drill writer and the archiver: each either raises or
  leaves its files.
\<close>

definition create_gerbers :: "host \<Rightarrow> board \<Rightarrow> string \<Rightarrow> world \<Rightarrow> error option \<times> world" where
  "create_gerbers H board path w =
     (case plot_gerbers H board path of
        Some e \<Rightarrow> (Some e, w)
      | None \<Rightarrow> (None, w\<lparr>artifacts := artifacts w @ [Gerbers board path]\<rparr>))"

definition create_drill_file :: "host \<Rightarrow> board \<Rightarrow> string \<Rightarrow> world \<Rightarrow> error option \<times> world" where
  "create_drill_file H board path w =
     (case write_drill_files H board path of
        Some e \<Rightarrow> (Some e, w)
      | None \<Rightarrow> (None, w\<lparr>artifacts := artifacts w @ [DrillFiles board path]\<rparr>))"

definition create_zip :: "host \<Rightarrow> string \<Rightarrow> string \<Rightarrow> world \<Rightarrow> error option \<times> world" where
  "create_zip H zip_file_path source_folder w =
     (case make_archive H zip_file_path source_folder of
        Some e \<Rightarrow> (Some e, w)
      | None \<Rightarrow> (None, w\<lparr>artifacts := artifacts w @ [Archive zip_file_path source_folder]\<rparr>))"

text \<open>Lines 214-220, the body of the loop over the boards.\<close>

definition produce_board :: "host \<Rightarrow> string \<Rightarrow> string \<Rightarrow> board \<Rightarrow> world \<Rightarrow> error option \<times> world"
where
  "produce_board H temp_path output_path pcb w =
     (let board_filename = snd (path_split (b_filename pcb));
          board_name = fst (path_splitext board_filename);
          gerber_output_path = path_join temp_path board_name;
          archive_file_path = path_join output_path board_name
      in case create_gerbers H pcb gerber_output_path w of
           (Some e, w1) \<Rightarrow> (Some e, w1)
         | (None, w1) \<Rightarrow>
             (case create_drill_file H pcb gerber_output_path w1 of
                (Some e, w2) \<Rightarrow> (Some e, w2)
              | (None, w2) \<Rightarrow> create_zip H archive_file_path gerber_output_path w2))"

text \<open>Lines 213-220: the loop over the boards.\<close>

fun produce_boards :: "host \<Rightarrow> string \<Rightarrow> string \<Rightarrow> board list \<Rightarrow> world \<Rightarrow> error option \<times> world"
where
  "produce_boards H temp_path output_path [] w = (None, w)"
| "produce_boards H temp_path output_path (pcb # pcbs) w =
     (case produce_board H temp_path output_path pcb w of
        (Some e, w1) \<Rightarrow> (Some e, w1)
      | (None, w1) \<Rightarrow> produce_boards H temp_path output_path pcbs w1)"

text \<open>
  \<^verbatim>\<open>produce\<close> from line 210 on, for the board loaded in line 194 and the two folders
  that lines 196-208 compute and create. A board object is true, \<^verbatim>\<open>None\<close> is false:
  the list of line 213 holds the source board and the plates that were returned.
\<close>

definition produce :: "host \<Rightarrow> board \<Rightarrow> string \<Rightarrow> string \<Rightarrow> world \<Rightarrow> error option \<times> world" where
  "produce H board temp_path output_path w =
     (case create_plate_pcb_from_layer H board ''B.Adhesive'' temp_path ''bottom-plate'' w of
        (Inl e, w1) \<Rightarrow> (Some e, w1)
      | (Inr bottom_plate, w1) \<Rightarrow>
          (case create_plate_pcb_from_layer H board ''F.Adhesive'' temp_path ''top-plate'' w1 of
             (Inl e, w2) \<Rightarrow> (Some e, w2)
           | (Inr top_plate, w2) \<Rightarrow>
               produce_boards H temp_path output_path
                 (List.map_filter id [Some board, bottom_plate, top_plate]) w2))"

section \<open>The vocabulary of the properties\<close>

text \<open>
  The condition of line 166 on a pad, for the identifier \<open>l\<close> of the reference layer.
\<close>

definition eligible :: "layer \<Rightarrow> pad \<Rightarrow> bool" where
  "eligible l p = (pad_IsOnLayer p l \<and> p_shape p \<in> {PAD_SHAPE_CIRCLE, PAD_SHAPE_OVAL})"

text \<open>The positions, counted from \<open>i\<close>, of the items of a list that are not kept.\<close>

definition marked :: "nat \<Rightarrow> ('a \<Rightarrow> bool) \<Rightarrow> 'a list \<Rightarrow> nat list" where
  "marked i keep xs = map fst (filter (\<lambda>(j, x). \<not> keep x) (enumerate i xs))"

text \<open>A graphical item after line 177: on the edge cuts when it was on the reference layer.\<close>

definition to_edge :: "layer \<Rightarrow> layer \<Rightarrow> graphic \<Rightarrow> graphic" where
  "to_edge l e g = (if graphic_IsOnLayer g l then g\<lparr>g_layer := e\<rparr> else g)"

text \<open>
  An ordinary footprint after filtering: its eligible pads as unplated holes and its
  graphical items of the reference layer on the edge cuts, both in their order.
\<close>

definition filtered :: "host \<Rightarrow> layer \<Rightarrow> layer \<Rightarrow> footprint \<Rightarrow> footprint" where
  "filtered H l e f =
     f\<lparr>f_pads := map (to_npth H) (filter (eligible l) (f_pads f)),
       f_graphics :=
         map (\<lambda>g. g\<lparr>g_layer := e\<rparr>) (filter (\<lambda>g. graphic_IsOnLayer g l) (f_graphics f))\<rparr>"

text \<open>What one source footprint contributes to the footprints of the plate.\<close>

definition added :: "host \<Rightarrow> string \<Rightarrow> box \<Rightarrow> footprint \<Rightarrow> footprint list" where
  "added H layer_name platebounds f =
     (case copy_footprint H layer_name platebounds f of Inr (Some nf) \<Rightarrow> [nf] | _ \<Rightarrow> [])"

text \<open>
  The outline box of a derived plate, as line 150 computed it: the box of the edge cuts
  of the plate when it held its drawings and no footprint yet.
\<close>

definition plate_outline :: "host \<Rightarrow> board \<Rightarrow> box" where
  "plate_outline H plate = GetBoardEdgesBoundingBox H (plate\<lparr>b_footprints := []\<rparr>)"

text \<open>
  The rule for drawings in the words of the specification, for the identifiers of the
  reference layer, the edge cuts, and the front and back silkscreen.
\<close>

definition spec_drawing_rule ::
  "layer \<Rightarrow> layer \<Rightarrow> layer \<Rightarrow> layer \<Rightarrow> drawing \<Rightarrow> drawing option" where
  "spec_drawing_rule l e f b d =
     (if d_class d = ''PCB_SHAPE'' \<and> d_layer d = l then Some (d\<lparr>d_layer := e\<rparr>)
      else if d_class d = ''PTEXT'' \<and> (d_layer d = f \<or> d_layer d = b) then Some d
      else None)"

text \<open>
  The plate after the loop over the drawings, for the identifiers of the reference
  layer, the edge cuts, and the front and back silkscreen: a new board with the drawings
  that the rule selects.
\<close>

definition drawn_plate :: "layer \<Rightarrow> layer \<Rightarrow> layer \<Rightarrow> layer \<Rightarrow> board \<Rightarrow> string \<Rightarrow> board" where
  "drawn_plate l e f b board path =
     \<lparr>b_filename = path,
      b_drawings = List.map_filter (spec_drawing_rule l e f b) (b_drawings board),
      b_footprints = []\<rparr>"

text \<open>
  The rule for footprints in the words of the specification: a footprint whose bounding
  box does not intersect the outline box contributes nothing; a mounting hole or a logo
  is added as it is; any other footprint is filtered, and added when a pad or a
  graphical item is left.
\<close>

definition spec_footprint_rule ::
  "host \<Rightarrow> layer \<Rightarrow> layer \<Rightarrow> box \<Rightarrow> footprint \<Rightarrow> footprint option" where
  "spec_footprint_rule H l e platebounds fp =
     (if \<not> Intersects H (GetBoundingBox H fp) platebounds then None
      else if preserved_whole (f_reference fp) then Some fp
      else if f_pads (filtered H l e fp) \<noteq> [] \<or> f_graphics (filtered H l e fp) \<noteq> []
           then Some (filtered H l e fp)
           else None)"

text \<open>
  The plate after the loop over the footprints: the plate with its drawings, and the
  footprints that the rule selects against the outline box of those drawings.
\<close>

definition derived_plate ::
  "host \<Rightarrow> layer \<Rightarrow> layer \<Rightarrow> layer \<Rightarrow> layer \<Rightarrow> board \<Rightarrow> string \<Rightarrow> board" where
  "derived_plate H l e f b board path =
     (drawn_plate l e f b board path)
       \<lparr>b_footprints :=
          List.map_filter
            (spec_footprint_rule H l e
               (GetBoardEdgesBoundingBox H (drawn_plate l e f b board path)))
            (b_footprints board)\<rparr>"

text \<open>\<^verbatim>\<open>s.find(old)\<close>: where the first occurrence of \<^verbatim>\<open>old\<close> starts, if there is one.\<close>

fun str_find :: "string \<Rightarrow> string \<Rightarrow> nat option" where
  "str_find [] old = (if old = [] then Some 0 else None)"
| "str_find (c # cs) old =
     (if startswith (c # cs) old then Some 0 else map_option Suc (str_find cs old))"

text \<open>
  The plate file name in the words of the specification: the suffix, after a hyphen,
  inserted once, before the first occurrence of the board extension; a name without
  the extension is left as it is.
\<close>

definition spec_plate_file_name :: "string \<Rightarrow> string \<Rightarrow> string" where
  "spec_plate_file_name board_filename plate_file_name_suffix =
     (case str_find board_filename ''.kicad_pcb'' of
        None \<Rightarrow> board_filename
      | Some i \<Rightarrow>
          take i board_filename @ ''-'' @ plate_file_name_suffix @ drop i board_filename)"

text \<open>The plates that were returned, as the list of line 213 holds them.\<close>

definition returned :: "board option \<Rightarrow> board list" where
  "returned p = (case p of None \<Rightarrow> [] | Some plate \<Rightarrow> [plate])"

text \<open>
  The artifacts of one board: its Gerber files and its drill files in the folder of its
  name under the staging folder, and the archive of that folder under its name in the
  output folder.
\<close>

definition artifacts_of :: "string \<Rightarrow> string \<Rightarrow> board \<Rightarrow> artifact list" where
  "artifacts_of temp_path output_path pcb =
     (let board_name = fst (path_splitext (snd (path_split (b_filename pcb))));
          folder = path_join temp_path board_name
      in [Gerbers pcb folder, DrillFiles pcb folder,
          Archive (path_join output_path board_name) folder])"

text \<open>A host on which no artifact fails to be written.\<close>

definition writes_all :: "host \<Rightarrow> bool" where
  "writes_all H =
     ((\<forall>pcb path. plot_gerbers H pcb path = None) \<and>
      (\<forall>pcb path. write_drill_files H pcb path = None) \<and>
      (\<forall>zip_file folder. make_archive H zip_file folder = None))"

section \<open>Plate derivation on objects\<close>

text \<open>
  The functions above compute with the values of the boards. The plugin computes with
  objects: a drawing, a pad, a graphical item, a footprint and a board are objects of
  \<^verbatim>\<open>pcbnew\<close> that the plugin holds references to, and a setter changes the object for
  everyone who holds a reference to it. This section models the derivation once more,
  on a store of objects, to tell an object from its duplicate.

  A reference is a number. The store counts the objects created so far, and the next
  object gets that count as its reference. A footprint holds references to its pads and
  graphical items, a board to its drawings and footprints.
\<close>

type_synonym ref = nat

record footprint_cell =
  c_reference :: string
  c_position :: point
  c_pads :: "ref list"
  c_graphics :: "ref list"

record board_cell =
  c_filename :: string
  c_drawings :: "ref list"
  c_footprints :: "ref list"

record store =
  allocated :: nat
  drawing_at :: "ref \<Rightarrow> drawing"
  pad_at :: "ref \<Rightarrow> pad"
  graphic_at :: "ref \<Rightarrow> graphic"
  footprint_at :: "ref \<Rightarrow> footprint_cell"
  board_at :: "ref \<Rightarrow> board_cell"

text \<open>The value of a footprint object and of a board object.\<close>

definition footprint_of :: "store \<Rightarrow> ref \<Rightarrow> footprint" where
  "footprint_of s r =
     \<lparr>f_reference = c_reference (footprint_at s r),
      f_position = c_position (footprint_at s r),
      f_pads = map (pad_at s) (c_pads (footprint_at s r)),
      f_graphics = map (graphic_at s) (c_graphics (footprint_at s r))\<rparr>"

definition board_of :: "store \<Rightarrow> ref \<Rightarrow> board" where
  "board_of s r =
     \<lparr>b_filename = c_filename (board_at s r),
      b_drawings = map (drawing_at s) (c_drawings (board_at s r)),
      b_footprints = map (footprint_of s) (c_footprints (board_at s r))\<rparr>"

text \<open>\<^verbatim>\<open>pcbnew.NewBoard(path)\<close>: a new board object.\<close>

definition NewBoard_ref :: "string \<Rightarrow> store \<Rightarrow> ref \<times> store" where
  "NewBoard_ref path s =
     (allocated s,
      s\<lparr>allocated := Suc (allocated s),
        board_at := (board_at s)
          (allocated s := \<lparr>c_filename = path, c_drawings = [], c_footprints = []\<rparr>)\<rparr>)"

text \<open>\<^verbatim>\<open>drawing.Duplicate()\<close>: a new drawing object with the attributes of the drawing.\<close>

definition Duplicate_ref :: "ref \<Rightarrow> store \<Rightarrow> ref \<times> store" where
  "Duplicate_ref d s =
     (allocated s,
      s\<lparr>allocated := Suc (allocated s),
        drawing_at := (drawing_at s)(allocated s := drawing_at s d)\<rparr>)"

definition drawing_SetLayer :: "ref \<Rightarrow> layer \<Rightarrow> store \<Rightarrow> store" where
  "drawing_SetLayer d l s = s\<lparr>drawing_at := (drawing_at s)(d := (drawing_at s d)\<lparr>d_layer := l\<rparr>)\<rparr>"

definition graphic_SetLayer :: "ref \<Rightarrow> layer \<Rightarrow> store \<Rightarrow> store" where
  "graphic_SetLayer g l s = s\<lparr>graphic_at := (graphic_at s)(g := (graphic_at s g)\<lparr>g_layer := l\<rparr>)\<rparr>"

text \<open>\<^verbatim>\<open>plate_pcb.Add(item)\<close> on the board object.\<close>

definition Add_drawing_ref :: "ref \<Rightarrow> ref \<Rightarrow> store \<Rightarrow> store" where
  "Add_drawing_ref b d s =
     s\<lparr>board_at := (board_at s)
          (b := (board_at s b)\<lparr>c_drawings := c_drawings (board_at s b) @ [d]\<rparr>)\<rparr>"

definition Add_footprint_ref :: "ref \<Rightarrow> ref \<Rightarrow> store \<Rightarrow> store" where
  "Add_footprint_ref b f s =
     s\<lparr>board_at := (board_at s)
          (b := (board_at s b)\<lparr>c_footprints := c_footprints (board_at s b) @ [f]\<rparr>)\<rparr>"

text \<open>
  \<^verbatim>\<open>pcbnew.FOOTPRINT(footprint)\<close>, the copy constructor: a new footprint object with
  new pad objects and new graphical item objects, copies of those of the footprint.
\<close>

fun copy_pads :: "ref list \<Rightarrow> store \<Rightarrow> ref list \<times> store" where
  "copy_pads [] s = ([], s)"
| "copy_pads (p # ps) s =
     (let n = allocated s;
          (ns, s') = copy_pads ps (s\<lparr>allocated := Suc n, pad_at := (pad_at s)(n := pad_at s p)\<rparr>)
      in (n # ns, s'))"

fun copy_graphics :: "ref list \<Rightarrow> store \<Rightarrow> ref list \<times> store" where
  "copy_graphics [] s = ([], s)"
| "copy_graphics (g # gs) s =
     (let n = allocated s;
          (ns, s') =
            copy_graphics gs (s\<lparr>allocated := Suc n, graphic_at := (graphic_at s)(n := graphic_at s g)\<rparr>)
      in (n # ns, s'))"

definition FOOTPRINT :: "ref \<Rightarrow> store \<Rightarrow> ref \<times> store" where
  "FOOTPRINT f s =
     (let (ps, s1) = copy_pads (c_pads (footprint_at s f)) s;
          (gs, s2) = copy_graphics (c_graphics (footprint_at s f)) s1;
          n = allocated s2
      in (n,
          s2\<lparr>allocated := Suc n,
             footprint_at := (footprint_at s2)
               (n := (footprint_at s f)\<lparr>c_pads := ps, c_graphics := gs\<rparr>)\<rparr>))"

text \<open>\<^verbatim>\<open>footprint.SetPosition(pos)\<close> on the footprint object and on its items.\<close>

definition pad_move :: "point \<Rightarrow> ref \<Rightarrow> store \<Rightarrow> store" where
  "pad_move delta p s =
     s\<lparr>pad_at := (pad_at s)(p := (pad_at s p)\<lparr>p_position := move delta (p_position (pad_at s p))\<rparr>)\<rparr>"

definition graphic_move :: "point \<Rightarrow> ref \<Rightarrow> store \<Rightarrow> store" where
  "graphic_move delta g s =
     s\<lparr>graphic_at := (graphic_at s)
          (g := (graphic_at s g)
             \<lparr>g_geometry := (move delta (fst (g_geometry (graphic_at s g))),
                             snd (g_geometry (graphic_at s g)))\<rparr>)\<rparr>"

definition SetPosition_ref :: "ref \<Rightarrow> point \<Rightarrow> store \<Rightarrow> store" where
  "SetPosition_ref f pos s =
     (let c = footprint_at s f;
          delta = (fst pos - fst (c_position c), snd pos - snd (c_position c));
          s1 = s\<lparr>footprint_at := (footprint_at s)(f := c\<lparr>c_position := move delta (c_position c)\<rparr>)\<rparr>;
          s2 = fold (pad_move delta) (c_pads c) s1
      in fold (graphic_move delta) (c_graphics c) s2)"

text \<open>Lines 167-172 on the pad object.\<close>

definition to_npth_ref :: "host \<Rightarrow> ref \<Rightarrow> store \<Rightarrow> store" where
  "to_npth_ref H p s = s\<lparr>pad_at := (pad_at s)(p := to_npth H (pad_at s p))\<rparr>"

text \<open>An entry of \<^verbatim>\<open>remove_footprint_items\<close>: a reference to a pad or to a graphical item.\<close>

datatype item = PadItem ref | GraphicItem ref

text \<open>\<^verbatim>\<open>new_footprint.Remove(item)\<close> takes the item out of the list that holds it.\<close>

fun Remove :: "ref \<Rightarrow> item \<Rightarrow> store \<Rightarrow> store" where
  "Remove f (PadItem p) s =
     s\<lparr>footprint_at := (footprint_at s)
          (f := (footprint_at s f)\<lparr>c_pads := remove1 p (c_pads (footprint_at s f))\<rparr>)\<rparr>"
| "Remove f (GraphicItem g) s =
     s\<lparr>footprint_at := (footprint_at s)
          (f := (footprint_at s f)\<lparr>c_graphics := remove1 g (c_graphics (footprint_at s f))\<rparr>)\<rparr>"

text \<open>Lines 142-148 on objects. Every drawing is duplicated, also one that is not added.\<close>

fun copy_drawings_ref ::
  "host \<Rightarrow> string \<Rightarrow> ref list \<Rightarrow> ref \<Rightarrow> store \<Rightarrow> error option \<times> store" where
  "copy_drawings_ref H layer_name [] plate_pcb s = (None, s)"
| "copy_drawings_ref H layer_name (drawing # ds) plate_pcb s =
     (let (new_drawing, s1) = Duplicate_ref drawing s
      in case GetLayerID H layer_name of
           Inl e \<Rightarrow> (Some e, s1)
         | Inr l \<Rightarrow>
             if drawing_IsOnLayer (drawing_at s1 drawing) l \<and>
                d_class (drawing_at s1 drawing) = ''PCB_SHAPE''
             then (case GetLayerID H ''Edge.Cuts'' of
                     Inl e \<Rightarrow> (Some e, s1)
                   | Inr e \<Rightarrow>
                       copy_drawings_ref H layer_name ds plate_pcb
                         (Add_drawing_ref plate_pcb new_drawing (drawing_SetLayer new_drawing e s1)))
             else (case GetLayerID H ''F.Silkscreen'' of
                     Inl e \<Rightarrow> (Some e, s1)
                   | Inr f \<Rightarrow>
                       if drawing_IsOnLayer (drawing_at s1 drawing) f
                       then copy_drawings_ref H layer_name ds plate_pcb
                              (if d_class (drawing_at s1 drawing) = ''PTEXT''
                               then Add_drawing_ref plate_pcb new_drawing s1 else s1)
                       else (case GetLayerID H ''B.Silkscreen'' of
                               Inl e \<Rightarrow> (Some e, s1)
                             | Inr b \<Rightarrow>
                                 copy_drawings_ref H layer_name ds plate_pcb
                                   (if drawing_IsOnLayer (drawing_at s1 drawing) b \<and>
                                       d_class (drawing_at s1 drawing) = ''PTEXT''
                                    then Add_drawing_ref plate_pcb new_drawing s1 else s1))))"

text \<open>Lines 165-174 on objects.\<close>

fun convert_pads_ref ::
  "host \<Rightarrow> string \<Rightarrow> ref list \<Rightarrow> item list \<Rightarrow> store \<Rightarrow> (error + item list) \<times> store" where
  "convert_pads_ref H layer_name [] remove_footprint_items s = (Inr remove_footprint_items, s)"
| "convert_pads_ref H layer_name (pad # ps) remove_footprint_items s =
     (case GetLayerID H layer_name of
        Inl e \<Rightarrow> (Inl e, s)
      | Inr l \<Rightarrow>
          if pad_IsOnLayer (pad_at s pad) l \<and>
             p_shape (pad_at s pad) \<in> {PAD_SHAPE_CIRCLE, PAD_SHAPE_OVAL}
          then convert_pads_ref H layer_name ps remove_footprint_items (to_npth_ref H pad s)
          else convert_pads_ref H layer_name ps (remove_footprint_items @ [PadItem pad]) s)"

text \<open>Lines 175-179 on objects.\<close>

fun convert_graphics_ref ::
  "host \<Rightarrow> string \<Rightarrow> ref list \<Rightarrow> item list \<Rightarrow> store \<Rightarrow> (error + item list) \<times> store" where
  "convert_graphics_ref H layer_name [] remove_footprint_items s = (Inr remove_footprint_items, s)"
| "convert_graphics_ref H layer_name (graphic # gs) remove_footprint_items s =
     (case GetLayerID H layer_name of
        Inl e \<Rightarrow> (Inl e, s)
      | Inr l \<Rightarrow>
          if graphic_IsOnLayer (graphic_at s graphic) l
          then (case GetLayerID H ''Edge.Cuts'' of
                  Inl e \<Rightarrow> (Inl e, s)
                | Inr e \<Rightarrow>
                    convert_graphics_ref H layer_name gs remove_footprint_items
                      (graphic_SetLayer graphic e s))
          else convert_graphics_ref H layer_name gs
                 (remove_footprint_items @ [GraphicItem graphic]) s)"

text \<open>Lines 164-183 on objects: the filtering of the new footprint, and its addition.\<close>

definition filter_footprint_ref ::
  "host \<Rightarrow> string \<Rightarrow> ref \<Rightarrow> ref \<Rightarrow> store \<Rightarrow> error option \<times> store" where
  "filter_footprint_ref H layer_name plate_pcb new_footprint s =
     (case convert_pads_ref H layer_name (c_pads (footprint_at s new_footprint)) [] s of
        (Inl e, s1) \<Rightarrow> (Some e, s1)
      | (Inr rm1, s1) \<Rightarrow>
          (case convert_graphics_ref H layer_name (c_graphics (footprint_at s1 new_footprint)) rm1 s1 of
             (Inl e, s2) \<Rightarrow> (Some e, s2)
           | (Inr rm2, s2) \<Rightarrow>
               (let s3 = fold (Remove new_footprint) rm2 s2
                in (None,
                    if length (c_pads (footprint_at s3 new_footprint)) > 0 \<or>
                       length (c_graphics (footprint_at s3 new_footprint)) > 0
                    then Add_footprint_ref plate_pcb new_footprint s3 else s3))))"

text \<open>Lines 157-183 on objects.\<close>

fun copy_footprints_ref ::
  "host \<Rightarrow> string \<Rightarrow> box \<Rightarrow> ref list \<Rightarrow> ref \<Rightarrow> store \<Rightarrow> error option \<times> store" where
  "copy_footprints_ref H layer_name platebounds [] plate_pcb s = (None, s)"
| "copy_footprints_ref H layer_name platebounds (footprint # fs) plate_pcb s =
     (if Intersects H (GetBoundingBox H (footprint_of s footprint)) platebounds
      then (let (new_footprint, s1) = FOOTPRINT footprint s;
                s2 = SetPosition_ref new_footprint (c_position (footprint_at s1 footprint)) s1
            in if preserved_whole (c_reference (footprint_at s2 footprint))
               then copy_footprints_ref H layer_name platebounds fs plate_pcb
                      (Add_footprint_ref plate_pcb new_footprint s2)
               else (case filter_footprint_ref H layer_name plate_pcb new_footprint s2 of
                       (Some e, s3) \<Rightarrow> (Some e, s3)
                     | (None, s3) \<Rightarrow>
                         copy_footprints_ref H layer_name platebounds fs plate_pcb s3))
      else copy_footprints_ref H layer_name platebounds fs plate_pcb s)"

text \<open>
  \<^verbatim>\<open>__create_plate_pcb_from_layer\<close> on objects: the reference returned or the exception
  raised, with the store and the file system as the call leaves them. The loops run
  over the drawings and the footprints that the source board holds when they start.
\<close>

definition create_plate_pcb_from_layer_ref ::
  "host \<Rightarrow> ref \<Rightarrow> string \<Rightarrow> string \<Rightarrow> string \<Rightarrow> store \<Rightarrow> world \<Rightarrow>
     (error + ref option) \<times> store \<times> world"
where
  "create_plate_pcb_from_layer_ref H board layer_name output_folder plate_file_name_suffix s w =
     (let path = plate_file_path (c_filename (board_at s board)) output_folder
                   plate_file_name_suffix;
          (plate_pcb, s1) = NewBoard_ref path s
      in case copy_drawings_ref H layer_name (c_drawings (board_at s1 board)) plate_pcb s1 of
           (Some e, s2) \<Rightarrow> (Inl e, s2, w)
         | (None, s2) \<Rightarrow>
             (let platebounds = GetBoardEdgesBoundingBox H (board_of s2 plate_pcb)
              in if GetArea H platebounds = 0 then (Inr None, s2, w)
                 else (case copy_footprints_ref H layer_name platebounds
                              (c_footprints (board_at s2 board)) plate_pcb s2 of
                         (Some e, s3) \<Rightarrow> (Inl e, s3, w)
                       | (None, s3) \<Rightarrow>
                           (let s4 = s3\<lparr>board_at := (board_at s3)
                                      (plate_pcb := (board_at s3 plate_pcb)\<lparr>c_filename := path\<rparr>)\<rparr>
                            in (case Save H path (board_of s4 plate_pcb) of
                                  Some e \<Rightarrow> (Inl e, s4, w)
                                | None \<Rightarrow>
                                    (Inr (Some plate_pcb), s4,
                                     w\<lparr>saved := saved w @ [(path, board_of s4 plate_pcb)]\<rparr>))))))"

text \<open>
  The objects of a board: the board, its drawings, its footprints, and their pads and
  graphical items.
\<close>

definition entities :: "store \<Rightarrow> ref \<Rightarrow> ref set" where
  "entities s b =
     {b} \<union> set (c_drawings (board_at s b)) \<union> set (c_footprints (board_at s b)) \<union>
     (\<Union>f \<in> set (c_footprints (board_at s b)).
        set (c_pads (footprint_at s f)) \<union> set (c_graphics (footprint_at s f)))"

text \<open>Every object with a reference below \<open>n\<close> is in \<open>s'\<close> as it is in \<open>s\<close>.\<close>

definition unchanged_below :: "nat \<Rightarrow> store \<Rightarrow> store \<Rightarrow> bool" where
  "unchanged_below n s s' =
     (\<forall>r < n. drawing_at s' r = drawing_at s r \<and> pad_at s' r = pad_at s r \<and>
              graphic_at s' r = graphic_at s r \<and> footprint_at s' r = footprint_at s r \<and>
              board_at s' r = board_at s r)"

text \<open>
  The store \<open>s'\<close> comes after \<open>s\<close> and has left the objects below \<open>n\<close> alone.
\<close>

definition keeps :: "nat \<Rightarrow> store \<Rightarrow> store \<Rightarrow> bool" where
  "keeps n s s' = (allocated s \<le> allocated s' \<and> unchanged_below n s s')"

text \<open>
  The plate \<open>b\<close> and all its objects are new with respect to \<open>n\<close>, and the plate and its
  footprints exist.
\<close>

definition new_plate :: "nat \<Rightarrow> store \<Rightarrow> ref \<Rightarrow> bool" where
  "new_plate n s b =
     (entities s b \<subseteq> {n..} \<and> b < allocated s \<and>
      set (c_footprints (board_at s b)) \<subseteq> {..<allocated s})"

text \<open>Writes to pads and graphical items leave the rest of the store alone.\<close>

definition items_only :: "store \<Rightarrow> store \<Rightarrow> bool" where
  "items_only s s' =
     (allocated s' = allocated s \<and> drawing_at s' = drawing_at s \<and>
      footprint_at s' = footprint_at s \<and> board_at s' = board_at s)"

section \<open>An example host and an example board\<close>

text \<open>
  A host to run the model on: the layer table of a board with the default layers, where
  a name that is not in the table gets the identifier of the undefined layer; boxes
  that intersect when they overlap or touch; every file written without an error.
\<close>

definition layer_ids :: "(string \<times> layer) list" where
  "layer_ids =
     [(''F.Cu'', 0), (''B.Cu'', 31), (''B.Adhesive'', 32), (''F.Adhesive'', 33),
      (''B.Silkscreen'', 36), (''F.Silkscreen'', 37), (''B.Mask'', 38), (''F.Mask'', 39),
      (''Edge.Cuts'', 44)]"

definition box_union :: "box \<Rightarrow> box \<Rightarrow> box" where
  "box_union a b =
     (let x0 = min (fst (fst a)) (fst (fst b)); y0 = min (snd (fst a)) (snd (fst b));
          x1 = max (fst (fst a) + fst (snd a)) (fst (fst b) + fst (snd b));
          y1 = max (snd (fst a) + snd (snd a)) (snd (fst b) + snd (snd b))
      in ((x0, y0), (x1 - x0, y1 - y0)))"

definition edges_box :: "board \<Rightarrow> box" where
  "edges_box b =
     (case filter (\<lambda>d. d_layer d = 44 \<and> d_class d = ''PCB_SHAPE'') (b_drawings b) of
        [] \<Rightarrow> ((0, 0), (0, 0))
      | d # ds \<Rightarrow> foldl box_union (d_geometry d) (map d_geometry ds))"

definition boxes_intersect :: "box \<Rightarrow> box \<Rightarrow> bool" where
  "boxes_intersect a b =
     (fst (fst a) \<le> fst (fst b) + fst (snd b) \<and> fst (fst b) \<le> fst (fst a) + fst (snd a) \<and>
      snd (fst a) \<le> snd (fst b) + snd (snd b) \<and> snd (fst b) \<le> snd (fst a) + snd (snd a))"

definition example_host :: host where
  "example_host =
     \<lparr>GetLayerID = (\<lambda>name. case map_of layer_ids name of None \<Rightarrow> Inr (- 1) | Some l \<Rightarrow> Inr l),
      GetBoardEdgesBoundingBox = edges_box,
      GetArea = (\<lambda>b. fst (snd b) * snd (snd b)),
      GetBoundingBox = (\<lambda>f. ((fst (f_position f) - 5, snd (f_position f) - 5), (10, 10))),
      Intersects = boxes_intersect,
      UnplatedHoleMask = {0, 31, 38, 39},
      Save = (\<lambda>path b. None),
      plot_gerbers = (\<lambda>b path. None),
      write_drill_files = (\<lambda>b path. None),
      make_archive = (\<lambda>zip_file folder. None)\<rparr>"

text \<open>The same host with a layer lookup that raises on a name outside the table.\<close>

definition strict_host :: host where
  "strict_host =
     example_host\<lparr>GetLayerID :=
       (\<lambda>name. case map_of layer_ids name of
                 None \<Rightarrow> Inl (UnresolvableLayer name) | Some l \<Rightarrow> Inr l)\<rparr>"

text \<open>The same host on a file system that refuses to save a board.\<close>

definition readonly_host :: host where
  "readonly_host = example_host\<lparr>Save := (\<lambda>path b. Some (IOFailure path))\<rparr>"

definition example_pad :: "pad_shape \<Rightarrow> pad_attrib \<Rightarrow> layer set \<Rightarrow> point \<Rightarrow> pad" where
  "example_pad shape attribute layers pos =
     \<lparr>p_shape = shape, p_attribute = attribute, p_layers = layers, p_position = pos,
      p_size = (3, 2), p_drill_shape = PAD_DRILL_SHAPE_CIRCLE, p_drill_size = (0, 0)\<rparr>"

text \<open>
  The footprints of the example board: a mounting hole \<open>H1\<close> with a plated pad, a switch
  \<open>SW1\<close> on the border of the outline with an oval pad on the front adhesive layer and a
  rectangular copper pad, a resistor \<open>R1\<close> inside the outline with nothing on the
  reference layer, and a mounting hole \<open>H2\<close> far from the outline.
\<close>

definition example_H1 :: footprint where
  "example_H1 =
     \<lparr>f_reference = ''H1'', f_position = (10, 10),
      f_pads = [example_pad PAD_SHAPE_CIRCLE PAD_ATTRIB_PTH {0, 31} (10, 10)],
      f_graphics = [\<lparr>g_layer = 37, g_geometry = ((8, 8), (4, 4))\<rparr>]\<rparr>"

definition example_SW1 :: footprint where
  "example_SW1 =
     \<lparr>f_reference = ''SW1'', f_position = (100, 20),
      f_pads = [example_pad PAD_SHAPE_OVAL PAD_ATTRIB_SMD {33} (100, 20),
                example_pad PAD_SHAPE_RECT PAD_ATTRIB_SMD {0, 39} (103, 20)],
      f_graphics = [\<lparr>g_layer = 33, g_geometry = ((98, 18), (4, 4))\<rparr>,
                    \<lparr>g_layer = 37, g_geometry = ((98, 18), (6, 6))\<rparr>]\<rparr>"

definition example_R1 :: footprint where
  "example_R1 =
     \<lparr>f_reference = ''R1'', f_position = (50, 20),
      f_pads = [example_pad PAD_SHAPE_RECT PAD_ATTRIB_SMD {0, 39} (50, 20)],
      f_graphics = [\<lparr>g_layer = 37, g_geometry = ((48, 18), (4, 4))\<rparr>]\<rparr>"

definition example_H2 :: footprint where
  "example_H2 =
     \<lparr>f_reference = ''H2'', f_position = (500, 500),
      f_pads = [example_pad PAD_SHAPE_CIRCLE PAD_ATTRIB_NPTH {0, 31, 38, 39} (500, 500)],
      f_graphics = []\<rparr>"

text \<open>
  A board with an outline on the front adhesive layer and none on the back one, a
  silkscreen text and a copper shape.
\<close>

definition example_board :: board where
  "example_board =
     \<lparr>b_filename = ''/proj/pcb/horizon.kicad_pcb'',
      b_drawings =
        [\<lparr>d_class = ''PCB_SHAPE'', d_layer = 33, d_geometry = ((0, 0), (100, 50))\<rparr>,
         \<lparr>d_class = ''PTEXT'', d_layer = 37, d_geometry = ((10, 10), (20, 5))\<rparr>,
         \<lparr>d_class = ''PCB_SHAPE'', d_layer = 0, d_geometry = ((0, 0), (5, 5))\<rparr>],
      b_footprints = [example_H1, example_SW1, example_R1, example_H2]\<rparr>"

text \<open>The top plate of the example board, and the switch on it.\<close>

definition example_hole :: pad where
  "example_hole =
     \<lparr>p_shape = PAD_SHAPE_OVAL, p_attribute = PAD_ATTRIB_NPTH,
      p_layers = {0, 31, 38, 39}, p_position = (100, 20), p_size = (3, 2),
      p_drill_shape = PAD_DRILL_SHAPE_OBLONG, p_drill_size = (3, 2)\<rparr>"

definition example_SW1_on_plate :: footprint where
  "example_SW1_on_plate =
     \<lparr>f_reference = ''SW1'', f_position = (100, 20),
      f_pads = [example_hole],
      f_graphics = [\<lparr>g_layer = 44, g_geometry = ((98, 18), (4, 4))\<rparr>]\<rparr>"

definition example_top_plate :: board where
  "example_top_plate =
     \<lparr>b_filename = ''/proj/temp/horizon-top-plate.kicad_pcb'',
      b_drawings =
        [\<lparr>d_class = ''PCB_SHAPE'', d_layer = 44, d_geometry = ((0, 0), (100, 50))\<rparr>,
         \<lparr>d_class = ''PTEXT'', d_layer = 37, d_geometry = ((10, 10), (20, 5))\<rparr>],
      b_footprints = [example_H1, example_SW1_on_plate]\<rparr>"

definition empty_world :: world where
  "empty_world = \<lparr>saved = [], artifacts = []\<rparr>"

definition top_plate_world :: world where
  "top_plate_world =
     \<lparr>saved = [(''/proj/temp/horizon-top-plate.kicad_pcb'', example_top_plate)],
      artifacts = []\<rparr>"

text \<open>The example board without its drawings.\<close>

definition undrawn_board :: board where
  "undrawn_board = example_board\<lparr>b_drawings := []\<rparr>"

text \<open>
  A store with the objects of a small board: an outline on the front adhesive layer,
  the switch \<open>SW1\<close> with an oval pad and a graphical item on that layer, and the mounting
  hole \<open>H1\<close> with a plated pad. The board is object 6.
\<close>

definition example_store :: store where
  "example_store =
     \<lparr>allocated = 7,
      drawing_at = (\<lambda>r. \<lparr>d_class = ''PCB_SHAPE'', d_layer = 33, d_geometry = ((0, 0), (100, 50))\<rparr>),
      pad_at = (\<lambda>r. if r = 4 then example_pad PAD_SHAPE_CIRCLE PAD_ATTRIB_PTH {0, 31} (10, 10)
                      else example_pad PAD_SHAPE_OVAL PAD_ATTRIB_SMD {33} (100, 20)),
      graphic_at = (\<lambda>r. \<lparr>g_layer = 33, g_geometry = ((98, 18), (4, 4))\<rparr>),
      footprint_at =
        (\<lambda>r. if r = 5
              then \<lparr>c_reference = ''H1'', c_position = (10, 10), c_pads = [4], c_graphics = []\<rparr>
              else \<lparr>c_reference = ''SW1'', c_position = (100, 20), c_pads = [1],
                    c_graphics = [2]\<rparr>),
      board_at =
        (\<lambda>r. \<lparr>c_filename = ''/proj/pcb/horizon.kicad_pcb'', c_drawings = [0],
                c_footprints = [3, 5]\<rparr>)\<rparr>"

text \<open>The derivation of the top plate of that board, and the store it leaves.\<close>

definition example_run :: "(error + ref option) \<times> store \<times> world" where
  "example_run =
     create_plate_pcb_from_layer_ref example_host 6 ''F.Adhesive'' ''/proj/temp'' ''top-plate''
       example_store empty_world"

definition example_store_after :: store where
  "example_store_after = fst (snd example_run)"

section \<open>The loops, as functions of their input\<close>

lemma bind_Inl [simp]: "bind (Inl e) k = Inl e"
  by (simp add: bind_def)

lemma bind_Inr [simp]: "bind (Inr x) k = k x"
  by (simp add: bind_def)

lemma bind_eq_Inr: "bind m k = Inr y \<longleftrightarrow> (\<exists>x. m = Inr x \<and> k x = Inr y)"
  by (cases m) simp_all

lemma bind_eq_Inl: "bind m k = Inl e \<longleftrightarrow> (m = Inl e \<or> (\<exists>x. m = Inr x \<and> k x = Inl e))"
  by (cases m) simp_all

lemma copy_drawing_resolved:
  assumes "GetLayerID H layer_name = Inr l" "GetLayerID H ''Edge.Cuts'' = Inr e"
    "GetLayerID H ''F.Silkscreen'' = Inr f" "GetLayerID H ''B.Silkscreen'' = Inr b"
  shows "copy_drawing H layer_name d = Inr (spec_drawing_rule l e f b d)"
  using assms by (auto simp: copy_drawing_def spec_drawing_rule_def drawing_IsOnLayer_def)

lemma copy_drawings_resolved:
  assumes "GetLayerID H layer_name = Inr l" "GetLayerID H ''Edge.Cuts'' = Inr e"
    "GetLayerID H ''F.Silkscreen'' = Inr f" "GetLayerID H ''B.Silkscreen'' = Inr b"
  shows "copy_drawings H layer_name ds plate =
           Inr (plate\<lparr>b_drawings := b_drawings plate @ List.map_filter (spec_drawing_rule l e f b) ds\<rparr>)"
proof (induction ds arbitrary: plate)
  case Nil
  show ?case by (simp add: List.map_filter_simps)
next
  case (Cons d ds)
  show ?case
    by (cases "spec_drawing_rule l e f b d")
      (simp_all add: copy_drawing_resolved [OF assms] Cons.IH List.map_filter_simps Add_drawing_def)
qed

lemma copy_drawings_footprints:
  "copy_drawings H layer_name ds plate = Inr plate' \<Longrightarrow>
     b_footprints plate' = b_footprints plate \<and> b_filename plate' = b_filename plate"
proof (induction ds arbitrary: plate)
  case Nil
  then show ?case by simp
next
  case (Cons d ds)
  then show ?case
    by (auto simp: bind_eq_Inr Add_drawing_def split: option.splits)
qed

lemma marked_Nil [simp]: "marked i keep [] = []"
  by (simp add: marked_def)

lemma marked_Cons:
  "marked i keep (x # xs) = (if keep x then marked (Suc i) keep xs else i # marked (Suc i) keep xs)"
  by (simp add: marked_def)

lemma set_marked: "set (marked i keep xs) = {j. i \<le> j \<and> j < i + length xs \<and> \<not> keep (xs ! (j - i))}"
proof (induction xs arbitrary: i)
  case Nil
  show ?case by simp
next
  case (Cons x xs)
  have nth: "(x # xs) ! (j - i) = (if j = i then x else xs ! (j - Suc i))" if "i \<le> j" for j
  proof (cases "j = i")
    case True
    then show ?thesis by simp
  next
    case False
    with that have "j - i = Suc (j - Suc i)" by simp
    with False show ?thesis by simp
  qed
  have "set (marked i keep (x # xs)) =
          (if keep x then {} else {i}) \<union> {j. Suc i \<le> j \<and> j < Suc i + length xs \<and> \<not> keep (xs ! (j - Suc i))}"
    by (simp add: marked_Cons Cons.IH)
  also have "\<dots> = {j. i \<le> j \<and> j < i + length (x # xs) \<and> \<not> keep ((x # xs) ! (j - i))}"
    by (auto simp: nth split: if_splits)
  finally show ?case .
qed

lemma convert_pads_resolved:
  assumes "GetLayerID H layer_name = Inr l"
  shows "convert_pads H layer_name i ps rm =
           Inr (map (\<lambda>p. if eligible l p then to_npth H p else p) ps,
                rm @ map PadRef (marked i (eligible l) ps))"
proof (induction ps arbitrary: i rm)
  case Nil
  show ?case by simp
next
  case (Cons p ps)
  show ?case
    using assms by (cases "eligible l p") (simp_all add: Cons.IH marked_Cons, simp_all add: eligible_def)
qed

lemma convert_pads_lookup:
  "convert_pads H layer_name i ps rm = Inr r \<Longrightarrow> ps \<noteq> [] \<Longrightarrow> \<exists>l. GetLayerID H layer_name = Inr l"
  by (cases ps) (auto simp: bind_eq_Inr)

lemma convert_graphics_resolved:
  assumes "GetLayerID H layer_name = Inr l"
    and "GetLayerID H ''Edge.Cuts'' = Inr e \<or> (\<forall>g \<in> set gs. \<not> graphic_IsOnLayer g l)"
  shows "convert_graphics H layer_name i gs rm =
           Inr (map (to_edge l e) gs,
                rm @ map GraphicRef (marked i (\<lambda>g. graphic_IsOnLayer g l) gs))"
  using assms(2)
proof (induction gs arbitrary: i rm)
  case Nil
  show ?case by simp
next
  case (Cons g gs)
  then show ?case
    using assms(1) by (auto simp: marked_Cons to_edge_def)
qed

lemma convert_graphics_lookup:
  "convert_graphics H layer_name i gs rm = Inr r \<Longrightarrow> gs \<noteq> [] \<Longrightarrow> \<exists>l. GetLayerID H layer_name = Inr l"
  by (cases gs) (auto simp: bind_eq_Inr)

lemma convert_graphics_edge_lookup:
  "convert_graphics H layer_name i gs rm = Inr r \<Longrightarrow> GetLayerID H layer_name = Inr l \<Longrightarrow>
     g \<in> set gs \<Longrightarrow> graphic_IsOnLayer g l \<Longrightarrow> \<exists>e. GetLayerID H ''Edge.Cuts'' = Inr e"
proof (induction gs arbitrary: i rm r)
  case Nil
  then show ?case by simp
next
  case (Cons x gs)
  then show ?case
    by (auto simp: bind_eq_Inr split: if_splits)
qed

lemma keep_unlisted_marked:
  assumes "\<And>i j. ref i = ref j \<Longrightarrow> i = j" "set other \<inter> range ref = {}"
  shows "keep_unlisted ref (map ref (marked 0 keep xs) @ other) (map c xs) = map c (filter keep xs)"
proof (induction xs rule: rev_induct)
  case Nil
  show ?case by (simp add: keep_unlisted_def)
next
  case (snoc x xs)
  have inj: "ref i \<in> ref ` A \<longleftrightarrow> i \<in> A" for i A
    using assms(1) by auto
  have other: "ref i \<notin> set other" for i
    using assms(2) by auto
  have m: "marked 0 keep (xs @ [x]) = marked 0 keep xs @ (if keep x then [] else [length xs])"
    by (simp add: marked_def enumerate_append_eq)
  have f: "filter (\<lambda>(i, y). ref i \<notin> set (map ref (marked 0 keep (xs @ [x])) @ other))
             (enumerate 0 (map c xs)) =
           filter (\<lambda>(i, y). ref i \<notin> set (map ref (marked 0 keep xs) @ other))
             (enumerate 0 (map c xs))"
    by (rule filter_cong) (auto simp: m inj other in_set_enumerate_eq)
  have l: "length xs \<notin> set (marked 0 keep xs)"
    by (simp add: set_marked)
  show ?case
    using snoc.IH f l
    by (simp add: keep_unlisted_def enumerate_append_eq inj other) (simp add: m)
qed

lemma move_zero [simp]: "move (0, 0) p = p"
  by (simp add: move_def)

lemma footprint_SetPosition_same [simp]: "footprint_SetPosition f (f_position f) = f"
  by (simp add: footprint_SetPosition_def)

lemma keep_unlisted_set_cong:
  "set rm = set rm' \<Longrightarrow> keep_unlisted ref rm xs = keep_unlisted ref rm' xs"
  by (simp add: keep_unlisted_def)

lemma keep_unlisted_pads:
  "keep_unlisted PadRef (map PadRef (marked 0 keep ps) @ map GraphicRef js) (map c ps) =
     map c (filter keep ps)"
  by (rule keep_unlisted_marked) auto

lemma keep_unlisted_graphics:
  "keep_unlisted GraphicRef (map PadRef js @ map GraphicRef (marked 0 keep gs)) (map c gs) =
     map c (filter keep gs)"
proof -
  have "keep_unlisted GraphicRef (map PadRef js @ map GraphicRef (marked 0 keep gs)) (map c gs) =
        keep_unlisted GraphicRef (map GraphicRef (marked 0 keep gs) @ map PadRef js) (map c gs)"
    by (rule keep_unlisted_set_cong) auto
  also have "\<dots> = map c (filter keep gs)"
    by (rule keep_unlisted_marked) auto
  finally show ?thesis .
qed

lemma map_if_filter: "map (\<lambda>x. if P x then c x else x) (filter P xs) = map c (filter P xs)"
  by (induction xs) auto

lemma filter_footprint_resolved:
  assumes "GetLayerID H layer_name = Inr l"
    and "GetLayerID H ''Edge.Cuts'' = Inr e \<or> (\<forall>g \<in> set (f_graphics f). \<not> graphic_IsOnLayer g l)"
  shows "filter_footprint H layer_name f = Inr (filtered H l e f)"
proof -
  have pads: "keep_unlisted PadRef
                (map PadRef (marked 0 (eligible l) (f_pads f)) @
                 map GraphicRef (marked 0 (\<lambda>g. graphic_IsOnLayer g l) (f_graphics f)))
                (map (\<lambda>p. if eligible l p then to_npth H p else p) (f_pads f)) =
              map (to_npth H) (filter (eligible l) (f_pads f))"
    by (simp add: keep_unlisted_pads map_if_filter)
  have graphics: "keep_unlisted GraphicRef
                (map PadRef (marked 0 (eligible l) (f_pads f)) @
                 map GraphicRef (marked 0 (\<lambda>g. graphic_IsOnLayer g l) (f_graphics f)))
                (map (to_edge l e) (f_graphics f)) =
              map (\<lambda>g. g\<lparr>g_layer := e\<rparr>) (filter (\<lambda>g. graphic_IsOnLayer g l) (f_graphics f))"
    unfolding to_edge_def by (simp add: keep_unlisted_graphics map_if_filter)
  show ?thesis
    by (simp add: filter_footprint_def convert_pads_resolved [OF assms(1)]
        convert_graphics_resolved [OF assms] remove_items_def filtered_def pads graphics)
qed

lemma filter_footprint_empty:
  "f_pads f = [] \<Longrightarrow> f_graphics f = [] \<Longrightarrow> filter_footprint H layer_name f = Inr f"
  by (simp add: filter_footprint_def remove_items_def keep_unlisted_def)

lemma filter_footprint_Inr:
  assumes "filter_footprint H layer_name f = Inr nf"
  shows "(f_pads f = [] \<and> f_graphics f = [] \<and> nf = f) \<or>
         (\<exists>l. GetLayerID H layer_name = Inr l \<and>
              ((\<exists>e. GetLayerID H ''Edge.Cuts'' = Inr e \<and> nf = filtered H l e f) \<or>
               ((\<forall>g \<in> set (f_graphics f). \<not> graphic_IsOnLayer g l) \<and> nf = filtered H l 0 f)))"
proof (cases "f_pads f = [] \<and> f_graphics f = []")
  case True
  with assms show ?thesis by (simp add: filter_footprint_empty)
next
  case False
  from assms obtain ps rm1 gs rm2 where
    p: "convert_pads H layer_name 0 (f_pads f) [] = Inr (ps, rm1)" and
    g: "convert_graphics H layer_name 0 (f_graphics f) rm1 = Inr (gs, rm2)"
    by (auto simp: filter_footprint_def bind_eq_Inr)
  from False p g obtain l where l: "GetLayerID H layer_name = Inr l"
    using convert_pads_lookup convert_graphics_lookup by blast
  show ?thesis
  proof (cases "\<exists>g \<in> set (f_graphics f). graphic_IsOnLayer g l")
    case True
    then obtain e where e: "GetLayerID H ''Edge.Cuts'' = Inr e"
      using convert_graphics_edge_lookup [OF g l] by blast
    have "filter_footprint H layer_name f = Inr (filtered H l e f)"
      using l e by (intro filter_footprint_resolved) simp_all
    with assms l e show ?thesis by simp
  next
    case False
    then have "filter_footprint H layer_name f = Inr (filtered H l 0 f)"
      using l by (intro filter_footprint_resolved) simp_all
    with assms l False show ?thesis by simp
  qed
qed

lemma copy_footprints_Inr:
  "copy_footprints H layer_name pb fs plate = Inr plate' \<Longrightarrow>
     plate' = plate\<lparr>b_footprints := b_footprints plate @ concat (map (added H layer_name pb) fs)\<rparr> \<and>
     (\<forall>f \<in> set fs. \<exists>r. copy_footprint H layer_name pb f = Inr r)"
proof (induction fs arbitrary: plate)
  case Nil
  then show ?case by simp
next
  case (Cons f fs)
  from Cons.prems obtain r where
    r: "copy_footprint H layer_name pb f = Inr r" and
    rest: "copy_footprints H layer_name pb fs
             (case r of None \<Rightarrow> plate | Some nf \<Rightarrow> Add_footprint plate nf) = Inr plate'"
    by (auto simp: bind_eq_Inr)
  from Cons.IH [OF rest] r show ?case
    by (cases r) (simp_all add: added_def Add_footprint_def)
qed

lemma copy_drawings_NewBoard:
  assumes "copy_drawings H layer_name ds (NewBoard path) = Inr plate1"
  shows "b_footprints plate1 = []" "b_filename plate1 = path"
  using copy_drawings_footprints [OF assms] by (simp_all add: NewBoard_def)

lemma create_plate_Some:
  assumes "create_plate_pcb_from_layer H board layer_name output_folder sfx w = (Inr (Some plate), w')"
  defines "path \<equiv> plate_file_path (b_filename board) output_folder sfx"
  shows "copy_drawings H layer_name (b_drawings board) (NewBoard path) = Inr (plate\<lparr>b_footprints := []\<rparr>)"
    and "GetArea H (plate_outline H plate) \<noteq> 0"
    and "b_footprints plate = concat (map (added H layer_name (plate_outline H plate)) (b_footprints board))"
    and "\<forall>f \<in> set (b_footprints board). \<exists>r. copy_footprint H layer_name (plate_outline H plate) f = Inr r"
    and "b_filename plate = path"
    and "Save H path plate = None"
    and "w' = w\<lparr>saved := saved w @ [(path, plate)]\<rparr>"
proof -
  from assms(1) obtain plate1 where
    d: "copy_drawings H layer_name (b_drawings board) (NewBoard path) = Inr plate1"
    by (auto simp: create_plate_pcb_from_layer_def path_def Let_def split: sum.splits)
  let ?pb = "GetBoardEdgesBoundingBox H plate1"
  from assms(1) d have area: "GetArea H ?pb \<noteq> 0"
    by (auto simp: create_plate_pcb_from_layer_def path_def Let_def split: if_splits)
  with assms(1) d obtain plate2 where
    f: "copy_footprints H layer_name ?pb (b_footprints board) plate1 = Inr plate2"
    by (auto simp: create_plate_pcb_from_layer_def path_def Let_def split: sum.splits)
  from assms(1) d area f have
    s: "Save H path (plate2\<lparr>b_filename := path\<rparr>) = None" and
    p: "plate = plate2\<lparr>b_filename := path\<rparr>" and
    w: "w' = w\<lparr>saved := saved w @ [(path, plate)]\<rparr>"
    by (auto simp: create_plate_pcb_from_layer_def path_def Let_def split: option.splits)
  note n = copy_drawings_NewBoard [OF d]
  note c = copy_footprints_Inr [OF f]
  have p1: "plate\<lparr>b_footprints := []\<rparr> = plate1"
    using p c n by simp
  then have o: "plate_outline H plate = ?pb"
    by (simp add: plate_outline_def)
  show "copy_drawings H layer_name (b_drawings board) (NewBoard path) = Inr (plate\<lparr>b_footprints := []\<rparr>)"
    using d p1 by simp
  show "GetArea H (plate_outline H plate) \<noteq> 0"
    using area o by simp
  show "b_footprints plate = concat (map (added H layer_name (plate_outline H plate)) (b_footprints board))"
    using p c n o by simp
  show "\<forall>f \<in> set (b_footprints board). \<exists>r. copy_footprint H layer_name (plate_outline H plate) f = Inr r"
    using c o by simp
  show "b_filename plate = path" using p by simp
  show "Save H path plate = None" using s p by simp
  show "w' = w\<lparr>saved := saved w @ [(path, plate)]\<rparr>" by (rule w)
qed

section \<open>The footprints of a derived plate\<close>

lemma added_cases:
  "added H layer_name pb f =
     (if \<not> Intersects H (GetBoundingBox H f) pb then []
      else if preserved_whole (f_reference f) then [f]
      else case filter_footprint H layer_name f of
             Inl e \<Rightarrow> []
           | Inr nf \<Rightarrow> if f_pads nf \<noteq> [] \<or> f_graphics nf \<noteq> [] then [nf] else [])"
  by (auto simp: added_def copy_footprint_def bind_def split: sum.splits)

lemma filter_footprint_reference:
  "filter_footprint H layer_name f = Inr nf \<Longrightarrow>
     f_reference nf = f_reference f \<and> f_position nf = f_position f"
  by (auto simp: filter_footprint_def bind_eq_Inr remove_items_def)

lemma added_reference: "nf \<in> set (added H layer_name pb f) \<Longrightarrow> f_reference nf = f_reference f"
  by (auto simp: added_cases filter_footprint_reference split: if_splits sum.splits)

lemma added_preserved:
  "preserved_whole (f_reference f) \<Longrightarrow>
     added H layer_name pb f = (if Intersects H (GetBoundingBox H f) pb then [f] else [])"
  by (simp add: added_cases)

lemma concat_added_preserved:
  "filter (\<lambda>g. preserved_whole (f_reference g)) (concat (map (added H layer_name pb) fs)) =
   filter (\<lambda>g. preserved_whole (f_reference g) \<and> Intersects H (GetBoundingBox H g) pb) fs"
proof (induction fs)
  case Nil
  show ?case by simp
next
  case (Cons f fs)
  have "filter (\<lambda>g. preserved_whole (f_reference g)) (added H layer_name pb f) =
        (if preserved_whole (f_reference f) \<and> Intersects H (GetBoundingBox H f) pb then [f] else [])"
  proof (cases "preserved_whole (f_reference f)")
    case True
    then show ?thesis by (simp add: added_preserved)
  next
    case False
    then have "\<forall>nf \<in> set (added H layer_name pb f). \<not> preserved_whole (f_reference nf)"
      by (simp add: added_reference)
    with False show ?thesis by (simp add: filter_empty_conv [THEN iffD2])
  qed
  with Cons.IH show ?case by simp
qed

lemma added_ordinary:
  assumes "\<not> preserved_whole (f_reference f)" "Intersects H (GetBoundingBox H f) pb"
    "filter_footprint H layer_name f = Inr nf"
  shows "copy_footprint H layer_name pb f =
           Inr (if f_pads nf \<noteq> [] \<or> f_graphics nf \<noteq> [] then Some nf else None)"
    and "added H layer_name pb f = (if f_pads nf \<noteq> [] \<or> f_graphics nf \<noteq> [] then [nf] else [])"
  using assms by (auto simp: added_def copy_footprint_def)

lemma copy_footprint_filters:
  assumes "copy_footprint H layer_name pb f = Inr r"
    "\<not> preserved_whole (f_reference f)" "Intersects H (GetBoundingBox H f) pb"
  shows "\<exists>nf. filter_footprint H layer_name f = Inr nf"
  using assms by (auto simp: copy_footprint_def bind_eq_Inr)

lemma ordinary_origin:
  assumes "create_plate_pcb_from_layer H board layer_name output_folder sfx w = (Inr (Some plate), w')"
    "nf \<in> set (b_footprints plate)" "\<not> preserved_whole (f_reference nf)"
  shows "\<exists>f \<in> set (b_footprints board).
           Intersects H (GetBoundingBox H f) (plate_outline H plate) \<and>
           f_reference f = f_reference nf \<and>
           filter_footprint H layer_name f = Inr nf \<and> (f_pads nf \<noteq> [] \<or> f_graphics nf \<noteq> [])"
proof -
  from assms(2) obtain f where f: "f \<in> set (b_footprints board)"
    and nf: "nf \<in> set (added H layer_name (plate_outline H plate) f)"
    by (auto simp: create_plate_Some(3) [OF assms(1)])
  from nf have r: "f_reference nf = f_reference f"
    by (rule added_reference)
  with assms(3) nf have "Intersects H (GetBoundingBox H f) (plate_outline H plate) \<and>
      filter_footprint H layer_name f = Inr nf \<and> (f_pads nf \<noteq> [] \<or> f_graphics nf \<noteq> [])"
    by (auto simp: added_cases split: if_splits sum.splits)
  with f r show ?thesis by auto
qed

lemma filtered_pads: "f_pads (filtered H l e f) = map (to_npth H) (filter (eligible l) (f_pads f))"
  by (simp add: filtered_def)

lemma filtered_graphics:
  "f_graphics (filtered H l e f) =
     map (\<lambda>g. g\<lparr>g_layer := e\<rparr>) (filter (\<lambda>g. graphic_IsOnLayer g l) (f_graphics f))"
  by (simp add: filtered_def)

lemma to_npth_eq:
  "to_npth H p =
     p\<lparr>p_attribute := PAD_ATTRIB_NPTH,
       p_drill_shape := (if p_shape p = PAD_SHAPE_CIRCLE then PAD_DRILL_SHAPE_CIRCLE
                         else PAD_DRILL_SHAPE_OBLONG),
       p_drill_size := p_size p,
       p_layers := UnplatedHoleMask H\<rparr>"
  by (simp add: to_npth_def Let_def)

lemma str_find_contains: "str_find s old = None \<longleftrightarrow> \<not> contains s old"
  by (induction s) (auto simp: startswith_def)

lemma replace_nonempty_absent:
  "old \<noteq> [] \<Longrightarrow> str_find s old = None \<Longrightarrow> replace_nonempty s old new = s"
  by (induction s) (auto split: if_splits)

lemma replace_nonempty_first:
  "old \<noteq> [] \<Longrightarrow> str_find s old = Some i \<Longrightarrow>
     replace_nonempty s old new = take i s @ new @ replace_nonempty (drop (i + length old) s) old new"
proof (induction s arbitrary: i)
  case Nil
  then show ?case by simp
next
  case (Cons c cs)
  show ?case
  proof (cases "startswith (c # cs) old")
    case True
    with Cons.prems show ?thesis by simp
  next
    case False
    with Cons.prems obtain j where j: "str_find cs old = Some j" "i = Suc j"
      by auto
    from Cons.IH [OF Cons.prems(1) j(1)] False j(2) show ?thesis
      by simp
  qed
qed

text \<open>With the layer names resolved, the derivation in closed form.\<close>

lemma copy_footprint_resolved:
  assumes "GetLayerID H layer_name = Inr l" "GetLayerID H ''Edge.Cuts'' = Inr e"
  shows "copy_footprint H layer_name pb fp = Inr (spec_footprint_rule H l e pb fp)"
proof -
  have "filter_footprint H layer_name fp = Inr (filtered H l e fp)"
    using assms by (intro filter_footprint_resolved) simp_all
  then show ?thesis
    by (simp add: copy_footprint_def spec_footprint_rule_def)
qed

lemma copy_footprints_resolved:
  assumes "GetLayerID H layer_name = Inr l" "GetLayerID H ''Edge.Cuts'' = Inr e"
  shows "copy_footprints H layer_name pb fs plate =
           Inr (plate\<lparr>b_footprints :=
                  b_footprints plate @ List.map_filter (spec_footprint_rule H l e pb) fs\<rparr>)"
proof (induction fs arbitrary: plate)
  case Nil
  show ?case by (simp add: List.map_filter_simps)
next
  case (Cons fp fs)
  show ?case
    by (cases "spec_footprint_rule H l e pb fp")
      (simp_all add: copy_footprint_resolved [OF assms] Cons.IH List.map_filter_simps
        Add_footprint_def)
qed

lemma derived_plate_outline:
  "plate_outline H (derived_plate H l e f b board path) =
     GetBoardEdgesBoundingBox H (drawn_plate l e f b board path)"
  by (simp add: plate_outline_def derived_plate_def drawn_plate_def)

lemma create_plate_resolved:
  assumes "GetLayerID H layer_name = Inr l" "GetLayerID H ''Edge.Cuts'' = Inr e"
    "GetLayerID H ''F.Silkscreen'' = Inr f" "GetLayerID H ''B.Silkscreen'' = Inr b"
  shows "create_plate_pcb_from_layer H board layer_name output_folder sfx w =
           (let path = plate_file_path (b_filename board) output_folder sfx;
                plate = derived_plate H l e f b board path
            in if GetArea H (plate_outline H plate) = 0 then (Inr None, w)
               else case Save H path plate of
                      Some io \<Rightarrow> (Inl io, w)
                    | None \<Rightarrow> (Inr (Some plate), w\<lparr>saved := saved w @ [(path, plate)]\<rparr>))"
proof -
  define path where "path = plate_file_path (b_filename board) output_folder sfx"
  have d: "copy_drawings H layer_name (b_drawings board) (NewBoard path) =
      Inr (drawn_plate l e f b board path)"
    by (simp add: copy_drawings_resolved [OF assms] NewBoard_def drawn_plate_def)
  have c: "copy_footprints H layer_name
      (GetBoardEdgesBoundingBox H (drawn_plate l e f b board path)) (b_footprints board)
      (drawn_plate l e f b board path) = Inr (derived_plate H l e f b board path)"
    by (simp add: copy_footprints_resolved [OF assms(1,2)] derived_plate_def drawn_plate_def)
  have n: "(derived_plate H l e f b board path)\<lparr>b_filename := path\<rparr> =
      derived_plate H l e f b board path"
    by (simp add: derived_plate_def drawn_plate_def)
  show ?thesis
    unfolding create_plate_pcb_from_layer_def path_def [symmetric] Let_def d derived_plate_outline
    by (simp add: c n split: option.split)
qed

lemma create_plate_produces:
  assumes "GetLayerID H layer_name = Inr l" "GetLayerID H ''Edge.Cuts'' = Inr e"
    "GetLayerID H ''F.Silkscreen'' = Inr f" "GetLayerID H ''B.Silkscreen'' = Inr b"
    and "GetArea H (plate_outline H
           (derived_plate H l e f b board (plate_file_path (b_filename board) output_folder sfx))) \<noteq> 0"
    and "Save H (plate_file_path (b_filename board) output_folder sfx)
           (derived_plate H l e f b board (plate_file_path (b_filename board) output_folder sfx)) = None"
  shows "create_plate_pcb_from_layer H board layer_name output_folder sfx w =
           (Inr (Some (derived_plate H l e f b board
                         (plate_file_path (b_filename board) output_folder sfx))),
            w\<lparr>saved := saved w @
                 [(plate_file_path (b_filename board) output_folder sfx,
                   derived_plate H l e f b board
                     (plate_file_path (b_filename board) output_folder sfx))]\<rparr>)"
  using assms(5,6) by (simp add: create_plate_resolved [OF assms(1-4)] Let_def)

text \<open>The footprints of a plate that was returned.\<close>

lemma preserved_whole_on_plate:
  assumes "create_plate_pcb_from_layer H board layer_name output_folder sfx w = (Inr (Some plate), w')"
  shows "filter (\<lambda>g. preserved_whole (f_reference g)) (b_footprints plate) =
           filter (\<lambda>g. preserved_whole (f_reference g) \<and>
                        Intersects H (GetBoundingBox H g) (plate_outline H plate))
             (b_footprints board)"
    and "f \<in> set (b_footprints board) \<Longrightarrow> preserved_whole (f_reference f) \<Longrightarrow>
          Intersects H (GetBoundingBox H f) (plate_outline H plate) \<Longrightarrow>
            f \<in> set (b_footprints plate)"
proof -
  show eq: "filter (\<lambda>g. preserved_whole (f_reference g)) (b_footprints plate) =
           filter (\<lambda>g. preserved_whole (f_reference g) \<and>
                        Intersects H (GetBoundingBox H g) (plate_outline H plate))
             (b_footprints board)"
    by (simp add: create_plate_Some(3) [OF assms] concat_added_preserved)
  show "f \<in> set (b_footprints plate)"
    if "f \<in> set (b_footprints board)" "preserved_whole (f_reference f)"
       "Intersects H (GetBoundingBox H f) (plate_outline H plate)"
  proof -
    from that have "f \<in> set (filter (\<lambda>g. preserved_whole (f_reference g)) (b_footprints plate))"
      unfolding eq by simp
    then show ?thesis by simp
  qed
qed

lemma ordinary_on_plate:
  assumes "create_plate_pcb_from_layer H board layer_name output_folder sfx w = (Inr (Some plate), w')"
    and "f \<in> set (b_footprints board)"
    and "\<not> preserved_whole (f_reference f)"
    and "Intersects H (GetBoundingBox H f) (plate_outline H plate)"
    and nf: "filter_footprint H layer_name f = Inr nf"
  shows "copy_footprint H layer_name (plate_outline H plate) f =
           Inr (if length (f_pads nf) > 0 \<or> length (f_graphics nf) > 0 then Some nf else None)"
    and "nf \<in> set (b_footprints plate) \<longleftrightarrow> f_pads nf \<noteq> [] \<or> f_graphics nf \<noteq> []"
proof -
  note a = added_ordinary [OF assms(3,4) nf]
  from a(1) show "copy_footprint H layer_name (plate_outline H plate) f =
      Inr (if length (f_pads nf) > 0 \<or> length (f_graphics nf) > 0 then Some nf else None)"
    by simp
  have in_plate: "nf \<in> set (b_footprints plate)" if "f_pads nf \<noteq> [] \<or> f_graphics nf \<noteq> []"
    using that assms(2) a(2) by (force simp: create_plate_Some(3) [OF assms(1)])
  have nonempty: "f_pads nf \<noteq> [] \<or> f_graphics nf \<noteq> []" if "nf \<in> set (b_footprints plate)"
  proof -
    have "\<not> preserved_whole (f_reference nf)"
      using assms(3) filter_footprint_reference [OF nf] by simp
    from ordinary_origin [OF assms(1) that this] show ?thesis by blast
  qed
  from in_plate nonempty
  show "nf \<in> set (b_footprints plate) \<longleftrightarrow> f_pads nf \<noteq> [] \<or> f_graphics nf \<noteq> []"
    by blast
qed

section \<open>The model on the example board\<close>

lemma example_top_plate_derived:
  "create_plate_pcb_from_layer example_host example_board ''F.Adhesive'' ''/proj/temp''
     ''top-plate'' empty_world = (Inr (Some example_top_plate), top_plate_world)"
  by code_simp

lemma example_outline: "plate_outline example_host example_top_plate = ((0, 0), (100, 50))"
  by code_simp

lemma example_SW1_filtered:
  "filter_footprint example_host ''F.Adhesive'' example_SW1 = Inr example_SW1_on_plate"
  by code_simp

lemma example_SW1_intersects:
  "Intersects example_host (GetBoundingBox example_host example_SW1)
     (plate_outline example_host example_top_plate)"
  unfolding example_outline by code_simp

lemma example_SW1_ordinary: "\<not> preserved_whole (f_reference example_SW1)"
  by code_simp

lemma example_SW1_on_plate_ordinary: "\<not> preserved_whole (f_reference example_SW1_on_plate)"
  by code_simp

lemma example_plate_file_path:
  "plate_file_path (b_filename example_board) ''/proj/temp'' ''top-plate'' =
     ''/proj/temp/horizon-top-plate.kicad_pcb''"
  by code_simp

lemma example_derived_plate:
  "derived_plate example_host 33 44 37 36 example_board
     ''/proj/temp/horizon-top-plate.kicad_pcb'' = example_top_plate"
  by code_simp

section \<open>Absent plates, production and errors\<close>

lemma create_plate_zero_area:
  assumes "copy_drawings H layer_name (b_drawings board)
             (NewBoard (plate_file_path (b_filename board) output_folder sfx)) = Inr plate1"
    and "GetArea H (GetBoardEdgesBoundingBox H plate1) = 0"
  shows "create_plate_pcb_from_layer H board layer_name output_folder sfx w = (Inr None, w)"
  using assms by (simp add: create_plate_pcb_from_layer_def)

lemma map_filter_plates:
  "List.map_filter id [Some board, bottom_plate, top_plate] =
     board # returned bottom_plate @ returned top_plate"
  by (simp add: List.map_filter_simps returned_def split: option.splits)

lemma produce_derived:
  assumes "create_plate_pcb_from_layer H board ''B.Adhesive'' temp_path ''bottom-plate'' w =
             (Inr bottom_plate, w1)"
    and "create_plate_pcb_from_layer H board ''F.Adhesive'' temp_path ''top-plate'' w1 =
             (Inr top_plate, w2)"
  shows "produce H board temp_path output_path w =
           produce_boards H temp_path output_path
             (board # returned bottom_plate @ returned top_plate) w2"
  using assms unfolding produce_def map_filter_plates by simp

lemma produce_board_writes_all:
  "writes_all H \<Longrightarrow>
     produce_board H temp_path output_path pcb w =
       (None, w\<lparr>artifacts := artifacts w @ artifacts_of temp_path output_path pcb\<rparr>)"
  by (simp add: writes_all_def produce_board_def create_gerbers_def create_drill_file_def
      create_zip_def artifacts_of_def Let_def)

lemma produce_boards_writes_all:
  "writes_all H \<Longrightarrow>
     produce_boards H temp_path output_path pcbs w =
       (None, w\<lparr>artifacts := artifacts w @ concat (map (artifacts_of temp_path output_path) pcbs)\<rparr>)"
  by (induction pcbs arbitrary: w) (simp_all add: produce_board_writes_all)

lemma produce_bottom_raises:
  "create_plate_pcb_from_layer H board ''B.Adhesive'' temp_path ''bottom-plate'' w = (Inl e, w1) \<Longrightarrow>
     produce H board temp_path output_path w = (Some e, w1)"
  by (simp add: produce_def)

lemma produce_top_raises:
  "create_plate_pcb_from_layer H board ''B.Adhesive'' temp_path ''bottom-plate'' w =
      (Inr bottom_plate, w1) \<Longrightarrow>
   create_plate_pcb_from_layer H board ''F.Adhesive'' temp_path ''top-plate'' w1 = (Inl e, w2) \<Longrightarrow>
     produce H board temp_path output_path w = (Some e, w2)"
  by (simp add: produce_def)

lemma create_plate_raises_world:
  "create_plate_pcb_from_layer H board layer_name output_folder sfx w = (Inl e, w1) \<Longrightarrow> w1 = w"
  by (auto simp: create_plate_pcb_from_layer_def Let_def split: sum.splits if_splits option.splits)

lemma example_bottom_plate_absent:
  "create_plate_pcb_from_layer example_host example_board ''B.Adhesive'' ''/proj/temp''
     ''bottom-plate'' empty_world = (Inr None, empty_world)"
  by code_simp

lemma example_host_writes_all: "writes_all example_host"
  by (simp add: writes_all_def example_host_def)

lemma copy_drawings_raises:
  "GetLayerID H layer_name = Inl e \<Longrightarrow> ds \<noteq> [] \<Longrightarrow>
     copy_drawings H layer_name ds plate_pcb = Inl e"
  by (cases ds) (simp_all add: copy_drawing_def)

lemma copy_drawing_raises:
  "GetLayerID H layer_name = Inl er \<Longrightarrow> copy_drawing H layer_name d = Inl er"
  by (simp add: copy_drawing_def)

lemma create_plate_undrawn:
  assumes "b_drawings board = []"
    and "GetArea H (GetBoardEdgesBoundingBox H
           (NewBoard (plate_file_path (b_filename board) output_folder sfx))) = 0"
  shows "create_plate_pcb_from_layer (H\<lparr>GetLayerID := lookup\<rparr>) board layer_name output_folder
           sfx w = (Inr None, w)"
  using assms by (simp add: create_plate_pcb_from_layer_def)

section \<open>The objects that a derivation writes\<close>

lemma keeps_refl [simp]: "keeps n s s"
  by (simp add: keeps_def unchanged_below_def)

lemma keeps_trans: "keeps n s s1 \<Longrightarrow> keeps n s1 s2 \<Longrightarrow> keeps n s s2"
  by (auto simp: keeps_def unchanged_below_def)

lemma keeps_mono: "keeps m s s' \<Longrightarrow> n \<le> m \<Longrightarrow> keeps n s s'"
  by (auto simp: keeps_def unchanged_below_def)

lemma copy_pads_keeps:
  "copy_pads ps s = (ns, s') \<Longrightarrow>
     keeps (allocated s) s s' \<and> set ns \<subseteq> {allocated s..<allocated s'} \<and>
     footprint_at s' = footprint_at s \<and> board_at s' = board_at s"
proof (induction ps arbitrary: s ns)
  case Nil
  then show ?case by simp
next
  case (Cons p ps)
  let ?s1 = "s\<lparr>allocated := Suc (allocated s), pad_at := (pad_at s)(allocated s := pad_at s p)\<rparr>"
  from Cons.prems obtain ms where
    r: "copy_pads ps ?s1 = (ms, s')" and ns: "ns = allocated s # ms"
    by (auto simp: Let_def split: prod.splits)
  from Cons.IH [OF r] have
    k: "keeps (Suc (allocated s)) ?s1 s'" and
    m: "set ms \<subseteq> {Suc (allocated s)..<allocated s'}" and
    f: "footprint_at s' = footprint_at s" "board_at s' = board_at s"
    by simp_all
  have "keeps (allocated s) s ?s1"
    by (simp add: keeps_def unchanged_below_def)
  moreover from k have "keeps (allocated s) ?s1 s'"
    by (rule keeps_mono) simp
  ultimately have "keeps (allocated s) s s'"
    by (rule keeps_trans)
  moreover from k have "allocated s < allocated s'"
    by (simp add: keeps_def)
  ultimately show ?case
    using m f ns by auto
qed

lemma copy_graphics_keeps:
  "copy_graphics gs s = (ns, s') \<Longrightarrow>
     keeps (allocated s) s s' \<and> set ns \<subseteq> {allocated s..<allocated s'} \<and>
     footprint_at s' = footprint_at s \<and> board_at s' = board_at s"
proof (induction gs arbitrary: s ns)
  case Nil
  then show ?case by simp
next
  case (Cons g gs)
  let ?s1 = "s\<lparr>allocated := Suc (allocated s),
               graphic_at := (graphic_at s)(allocated s := graphic_at s g)\<rparr>"
  from Cons.prems obtain ms where
    r: "copy_graphics gs ?s1 = (ms, s')" and ns: "ns = allocated s # ms"
    by (auto simp: Let_def split: prod.splits)
  from Cons.IH [OF r] have
    k: "keeps (Suc (allocated s)) ?s1 s'" and
    m: "set ms \<subseteq> {Suc (allocated s)..<allocated s'}" and
    f: "footprint_at s' = footprint_at s" "board_at s' = board_at s"
    by simp_all
  have "keeps (allocated s) s ?s1"
    by (simp add: keeps_def unchanged_below_def)
  moreover from k have "keeps (allocated s) ?s1 s'"
    by (rule keeps_mono) simp
  ultimately have "keeps (allocated s) s s'"
    by (rule keeps_trans)
  moreover from k have "allocated s < allocated s'"
    by (simp add: keeps_def)
  ultimately show ?case
    using m f ns by auto
qed

lemma FOOTPRINT_keeps:
  assumes "FOOTPRINT f s = (nf, s')"
  shows "keeps (allocated s) s s'"
    and "allocated s \<le> nf" and "nf < allocated s'"
    and "set (c_pads (footprint_at s' nf)) \<subseteq> {allocated s..}"
    and "set (c_graphics (footprint_at s' nf)) \<subseteq> {allocated s..}"
    and "board_at s' = board_at s"
    and "\<And>r. r \<noteq> nf \<Longrightarrow> footprint_at s' r = footprint_at s r"
proof -
  obtain ps s1 where p: "copy_pads (c_pads (footprint_at s f)) s = (ps, s1)"
    by (cases "copy_pads (c_pads (footprint_at s f)) s")
  obtain gs s2 where g: "copy_graphics (c_graphics (footprint_at s f)) s1 = (gs, s2)"
    by (cases "copy_graphics (c_graphics (footprint_at s f)) s1")
  from assms p g have
    nf: "nf = allocated s2" and
    s': "s' = s2\<lparr>allocated := Suc (allocated s2),
                 footprint_at := (footprint_at s2)
                   (allocated s2 := (footprint_at s f)\<lparr>c_pads := ps, c_graphics := gs\<rparr>)\<rparr>"
    by (auto simp: FOOTPRINT_def Let_def)
  have comp: "allocated s' = Suc nf" "board_at s' = board_at s2"
    "footprint_at s' = (footprint_at s2)(nf := (footprint_at s f)\<lparr>c_pads := ps, c_graphics := gs\<rparr>)"
    "drawing_at s' = drawing_at s2" "pad_at s' = pad_at s2" "graphic_at s' = graphic_at s2"
    unfolding s' nf by simp_all
  note kp = copy_pads_keeps [OF p] and kg = copy_graphics_keeps [OF g]
  from kp kg have le: "allocated s \<le> allocated s1" "allocated s1 \<le> allocated s2"
    by (simp_all add: keeps_def)
  from kp have kp': "keeps (allocated s) s s1" by simp
  from kg have "keeps (allocated s1) s1 s2" by simp
  then have kg': "keeps (allocated s) s1 s2" using le(1) by (rule keeps_mono)
  have k2: "keeps (allocated s) s s2"
    using kp' kg' by (rule keeps_trans)
  have "keeps (allocated s) s2 s'"
    unfolding keeps_def unchanged_below_def comp using le nf by simp
  with k2 show "keeps (allocated s) s s'"
    by (rule keeps_trans)
  show "allocated s \<le> nf" using le nf by simp
  show "nf < allocated s'" by (simp add: comp)
  from kp have "set ps \<subseteq> {allocated s..}" by auto
  then show "set (c_pads (footprint_at s' nf)) \<subseteq> {allocated s..}"
    by (simp add: comp)
  from kg le have "set gs \<subseteq> {allocated s..}" by auto
  then show "set (c_graphics (footprint_at s' nf)) \<subseteq> {allocated s..}"
    by (simp add: comp)
  from kp kg show "board_at s' = board_at s"
    by (simp add: comp)
  from kp kg show "footprint_at s' r = footprint_at s r" if "r \<noteq> nf" for r
    using that by (simp add: comp)
qed

lemma keeps_pad_upd: "n \<le> p \<Longrightarrow> keeps n s (s\<lparr>pad_at := (pad_at s)(p := v)\<rparr>)"
  by (simp add: keeps_def unchanged_below_def)

lemma keeps_graphic_upd: "n \<le> g \<Longrightarrow> keeps n s (s\<lparr>graphic_at := (graphic_at s)(g := v)\<rparr>)"
  by (simp add: keeps_def unchanged_below_def)

lemma keeps_drawing_upd: "n \<le> d \<Longrightarrow> keeps n s (s\<lparr>drawing_at := (drawing_at s)(d := v)\<rparr>)"
  by (simp add: keeps_def unchanged_below_def)

lemma keeps_footprint_upd: "n \<le> f \<Longrightarrow> keeps n s (s\<lparr>footprint_at := (footprint_at s)(f := v)\<rparr>)"
  by (simp add: keeps_def unchanged_below_def)

lemma keeps_board_upd: "n \<le> b \<Longrightarrow> keeps n s (s\<lparr>board_at := (board_at s)(b := v)\<rparr>)"
  by (simp add: keeps_def unchanged_below_def)

lemma items_only_refl [simp]: "items_only s s"
  by (simp add: items_only_def)

lemma items_only_trans: "items_only s s1 \<Longrightarrow> items_only s1 s2 \<Longrightarrow> items_only s s2"
  by (simp add: items_only_def)

lemma fold_pad_move:
  "set ps \<subseteq> {n..} \<Longrightarrow>
     keeps n s (fold (pad_move delta) ps s) \<and> items_only s (fold (pad_move delta) ps s)"
proof (induction ps arbitrary: s)
  case Nil
  show ?case by simp
next
  case (Cons p ps)
  have 1: "keeps n s (pad_move delta p s)" "items_only s (pad_move delta p s)"
    using Cons.prems by (simp_all add: pad_move_def keeps_pad_upd items_only_def)
  from Cons.prems have "set ps \<subseteq> {n..}" by simp
  from Cons.IH [OF this, of "pad_move delta p s"] 1 show ?case
    by (auto intro: keeps_trans items_only_trans)
qed

lemma fold_graphic_move:
  "set gs \<subseteq> {n..} \<Longrightarrow>
     keeps n s (fold (graphic_move delta) gs s) \<and> items_only s (fold (graphic_move delta) gs s)"
proof (induction gs arbitrary: s)
  case Nil
  show ?case by simp
next
  case (Cons g gs)
  have 1: "keeps n s (graphic_move delta g s)" "items_only s (graphic_move delta g s)"
    using Cons.prems by (simp_all add: graphic_move_def keeps_graphic_upd items_only_def)
  from Cons.prems have "set gs \<subseteq> {n..}" by simp
  from Cons.IH [OF this, of "graphic_move delta g s"] 1 show ?case
    by (auto intro: keeps_trans items_only_trans)
qed

lemma SetPosition_ref_keeps:
  assumes "n \<le> nf"
    and "set (c_pads (footprint_at s nf)) \<subseteq> {n..}"
    and "set (c_graphics (footprint_at s nf)) \<subseteq> {n..}"
  shows "keeps n s (SetPosition_ref nf pos s)"
    and "allocated (SetPosition_ref nf pos s) = allocated s"
    and "board_at (SetPosition_ref nf pos s) = board_at s"
    and "c_pads (footprint_at (SetPosition_ref nf pos s) nf) = c_pads (footprint_at s nf)"
    and "c_graphics (footprint_at (SetPosition_ref nf pos s) nf) = c_graphics (footprint_at s nf)"
    and "\<And>r. r \<noteq> nf \<Longrightarrow> footprint_at (SetPosition_ref nf pos s) r = footprint_at s r"
proof -
  define c where "c = footprint_at s nf"
  define delta where "delta = (fst pos - fst (c_position c), snd pos - snd (c_position c))"
  define s1 where
    "s1 = s\<lparr>footprint_at := (footprint_at s)(nf := c\<lparr>c_position := move delta (c_position c)\<rparr>)\<rparr>"
  define s2 where "s2 = fold (pad_move delta) (c_pads c) s1"
  define s3 where "s3 = fold (graphic_move delta) (c_graphics c) s2"
  have r: "SetPosition_ref nf pos s = s3"
    by (simp add: SetPosition_ref_def Let_def c_def delta_def s1_def s2_def s3_def)
  have k1: "keeps n s s1"
    unfolding s1_def using assms(1) by (rule keeps_footprint_upd)
  have p: "keeps n s1 s2" "items_only s1 s2"
    unfolding s2_def using fold_pad_move [of "c_pads c" n s1 delta] assms(2)
    by (simp_all add: c_def)
  have g: "keeps n s2 s3" "items_only s2 s3"
    unfolding s3_def using fold_graphic_move [of "c_graphics c" n s2 delta] assms(3)
    by (simp_all add: c_def)
  have i: "items_only s1 s3"
    using p(2) g(2) by (rule items_only_trans)
  show "keeps n s (SetPosition_ref nf pos s)"
    unfolding r using k1 p(1) g(1) by (blast intro: keeps_trans)
  show "allocated (SetPosition_ref nf pos s) = allocated s"
    unfolding r using i by (simp add: items_only_def s1_def)
  show "board_at (SetPosition_ref nf pos s) = board_at s"
    unfolding r using i by (simp add: items_only_def s1_def)
  show "c_pads (footprint_at (SetPosition_ref nf pos s) nf) = c_pads (footprint_at s nf)"
    unfolding r using i by (simp add: items_only_def s1_def c_def)
  show "c_graphics (footprint_at (SetPosition_ref nf pos s) nf) = c_graphics (footprint_at s nf)"
    unfolding r using i by (simp add: items_only_def s1_def c_def)
  show "footprint_at (SetPosition_ref nf pos s) r = footprint_at s r" if "r \<noteq> nf" for r
    unfolding r using i that by (simp add: items_only_def s1_def)
qed

lemma convert_pads_ref_keeps:
  "convert_pads_ref H layer_name ps rm s = (r, s') \<Longrightarrow> set ps \<subseteq> {n..} \<Longrightarrow>
     keeps n s s' \<and> items_only s s'"
proof (induction ps arbitrary: rm s)
  case Nil
  then show ?case by simp
next
  case (Cons p ps)
  from Cons.prems(2) have n: "n \<le> p" "set ps \<subseteq> {n..}" by simp_all
  have 1: "keeps n s (to_npth_ref H p s)" "items_only s (to_npth_ref H p s)"
    using n(1) by (simp_all add: to_npth_ref_def keeps_pad_upd items_only_def)
  show ?case
  proof (cases "GetLayerID H layer_name")
    case (Inl e)
    with Cons.prems(1) show ?thesis by simp
  next
    case (Inr l)
    show ?thesis
    proof (cases "pad_IsOnLayer (pad_at s p) l \<and>
        p_shape (pad_at s p) \<in> {PAD_SHAPE_CIRCLE, PAD_SHAPE_OVAL}")
      case True
      with Cons.prems(1) Inr have
        "convert_pads_ref H layer_name ps rm (to_npth_ref H p s) = (r, s')"
        by simp
      from Cons.IH [OF this n(2)] 1 show ?thesis
        by (blast intro: keeps_trans items_only_trans)
    next
      case False
      with Cons.prems(1) Inr have
        "convert_pads_ref H layer_name ps (rm @ [PadItem p]) s = (r, s')"
        by auto
      from Cons.IH [OF this n(2)] show ?thesis .
    qed
  qed
qed

lemma convert_graphics_ref_keeps:
  "convert_graphics_ref H layer_name gs rm s = (r, s') \<Longrightarrow> set gs \<subseteq> {n..} \<Longrightarrow>
     keeps n s s' \<and> items_only s s'"
proof (induction gs arbitrary: rm s)
  case Nil
  then show ?case by simp
next
  case (Cons g gs)
  from Cons.prems(2) have n: "n \<le> g" "set gs \<subseteq> {n..}" by simp_all
  have 1: "keeps n s (graphic_SetLayer g e s)" "items_only s (graphic_SetLayer g e s)" for e
    using n(1) by (simp_all add: graphic_SetLayer_def keeps_graphic_upd items_only_def)
  show ?case
  proof (cases "GetLayerID H layer_name")
    case (Inl e)
    with Cons.prems(1) show ?thesis by simp
  next
    case (Inr l)
    show ?thesis
    proof (cases "graphic_IsOnLayer (graphic_at s g) l")
      case True
      show ?thesis
      proof (cases "GetLayerID H ''Edge.Cuts''")
        case (Inl e)
        with Cons.prems(1) Inr True show ?thesis by simp
      next
        case e: (Inr e)
        with Cons.prems(1) Inr True have
          "convert_graphics_ref H layer_name gs rm (graphic_SetLayer g e s) = (r, s')"
          by simp
        from Cons.IH [OF this n(2)] 1 [of e] show ?thesis
          by (blast intro: keeps_trans items_only_trans)
      qed
    next
      case False
      with Cons.prems(1) Inr have
        "convert_graphics_ref H layer_name gs (rm @ [GraphicItem g]) s = (r, s')"
        by simp
      from Cons.IH [OF this n(2)] show ?thesis .
    qed
  qed
qed

lemma fold_Remove:
  "n \<le> nf \<Longrightarrow>
     keeps n s (fold (Remove nf) rm s) \<and>
     allocated (fold (Remove nf) rm s) = allocated s \<and>
     board_at (fold (Remove nf) rm s) = board_at s \<and>
     (\<forall>r. r \<noteq> nf \<longrightarrow> footprint_at (fold (Remove nf) rm s) r = footprint_at s r) \<and>
     set (c_pads (footprint_at (fold (Remove nf) rm s) nf)) \<subseteq> set (c_pads (footprint_at s nf)) \<and>
     set (c_graphics (footprint_at (fold (Remove nf) rm s) nf)) \<subseteq>
       set (c_graphics (footprint_at s nf))"
proof (induction rm arbitrary: s)
  case Nil
  show ?case by simp
next
  case (Cons x rm)
  have 1: "keeps n s (Remove nf x s)" "allocated (Remove nf x s) = allocated s"
    "board_at (Remove nf x s) = board_at s"
    "\<And>r. r \<noteq> nf \<Longrightarrow> footprint_at (Remove nf x s) r = footprint_at s r"
    "set (c_pads (footprint_at (Remove nf x s) nf)) \<subseteq> set (c_pads (footprint_at s nf))"
    "set (c_graphics (footprint_at (Remove nf x s) nf)) \<subseteq> set (c_graphics (footprint_at s nf))"
    using Cons.prems by (cases x; simp add: keeps_footprint_upd set_remove1_subset)+
  from Cons.IH [OF Cons.prems, of "Remove nf x s"] 1 show ?case
    by (auto intro: keeps_trans)
qed

lemma filter_footprint_ref_keeps:
  assumes "filter_footprint_ref H layer_name plate nf s = (r, s')"
    and "n \<le> nf"
    and "set (c_pads (footprint_at s nf)) \<subseteq> {n..}"
    and "set (c_graphics (footprint_at s nf)) \<subseteq> {n..}"
  shows "\<exists>s5. keeps n s s5 \<and> allocated s5 = allocated s \<and> board_at s5 = board_at s \<and>
              (\<forall>f. f \<noteq> nf \<longrightarrow> footprint_at s5 f = footprint_at s f) \<and>
              set (c_pads (footprint_at s5 nf)) \<subseteq> {n..} \<and>
              set (c_graphics (footprint_at s5 nf)) \<subseteq> {n..} \<and>
              (s' = s5 \<or> s' = Add_footprint_ref plate nf s5)"
proof -
  obtain r1 s1 where
    p: "convert_pads_ref H layer_name (c_pads (footprint_at s nf)) [] s = (r1, s1)"
    by (cases "convert_pads_ref H layer_name (c_pads (footprint_at s nf)) [] s")
  from convert_pads_ref_keeps [OF p assms(3)] have
    k1: "keeps n s s1" and i1: "items_only s s1"
    by simp_all
  have good1: "allocated s1 = allocated s \<and> board_at s1 = board_at s \<and>
      (\<forall>f. f \<noteq> nf \<longrightarrow> footprint_at s1 f = footprint_at s f) \<and>
      set (c_pads (footprint_at s1 nf)) \<subseteq> {n..} \<and>
      set (c_graphics (footprint_at s1 nf)) \<subseteq> {n..}"
    using i1 assms(3,4) by (simp add: items_only_def)
  show ?thesis
  proof (cases r1)
    case (Inl e)
    with assms(1) p have "s' = s1" by (simp add: filter_footprint_ref_def)
    with k1 good1 show ?thesis by blast
  next
    case (Inr rm1)
    obtain r2 s2 where
      g: "convert_graphics_ref H layer_name (c_graphics (footprint_at s1 nf)) rm1 s1 = (r2, s2)"
      by (cases "convert_graphics_ref H layer_name (c_graphics (footprint_at s1 nf)) rm1 s1")
    from good1 have "set (c_graphics (footprint_at s1 nf)) \<subseteq> {n..}" by simp
    from convert_graphics_ref_keeps [OF g this] have
      k2: "keeps n s1 s2" and i2: "items_only s1 s2"
      by simp_all
    have k12: "keeps n s s2"
      using k1 k2 by (rule keeps_trans)
    have good2: "allocated s2 = allocated s \<and> board_at s2 = board_at s \<and>
      (\<forall>f. f \<noteq> nf \<longrightarrow> footprint_at s2 f = footprint_at s f) \<and>
      set (c_pads (footprint_at s2 nf)) \<subseteq> {n..} \<and>
      set (c_graphics (footprint_at s2 nf)) \<subseteq> {n..}"
      using good1 i2 by (simp add: items_only_def)
    show ?thesis
    proof (cases r2)
      case (Inl e)
      with assms(1) p g Inr have "s' = s2" by (simp add: filter_footprint_ref_def)
      with k12 good2 show ?thesis by blast
    next
      case rm2: (Inr rm2)
      define s3 where "s3 = fold (Remove nf) rm2 s2"
      from fold_Remove [OF assms(2), of s2 rm2] have
        k3: "keeps n s2 s3" and
        good3: "allocated s3 = allocated s2" "board_at s3 = board_at s2"
          "\<forall>r. r \<noteq> nf \<longrightarrow> footprint_at s3 r = footprint_at s2 r"
          "set (c_pads (footprint_at s3 nf)) \<subseteq> set (c_pads (footprint_at s2 nf))"
          "set (c_graphics (footprint_at s3 nf)) \<subseteq> set (c_graphics (footprint_at s2 nf))"
        unfolding s3_def by simp_all
      have k: "keeps n s s3"
        using k12 k3 by (rule keeps_trans)
      from assms(1) p g Inr rm2 have "s' = s3 \<or> s' = Add_footprint_ref plate nf s3"
        by (auto simp: filter_footprint_ref_def Let_def s3_def split: if_splits)
      moreover have "allocated s3 = allocated s \<and> board_at s3 = board_at s \<and>
        (\<forall>f. f \<noteq> nf \<longrightarrow> footprint_at s3 f = footprint_at s f) \<and>
        set (c_pads (footprint_at s3 nf)) \<subseteq> {n..} \<and>
        set (c_graphics (footprint_at s3 nf)) \<subseteq> {n..}"
        using good2 good3 by auto
      ultimately show ?thesis
        using k by blast
    qed
  qed
qed

lemma entities_cong:
  assumes "board_at s' b = board_at s b"
    and "\<And>f. f \<in> set (c_footprints (board_at s b)) \<Longrightarrow> footprint_at s' f = footprint_at s f"
  shows "entities s' b = entities s b"
  using assms by (simp add: entities_def)

lemma new_plate_keeps:
  assumes "new_plate n s b" "keeps (allocated s) s s'"
  shows "new_plate n s' b"
proof -
  from assms have b: "board_at s' b = board_at s b"
    by (simp add: new_plate_def keeps_def unchanged_below_def)
  from assms have f: "footprint_at s' f = footprint_at s f"
    if "f \<in> set (c_footprints (board_at s b))" for f
    using that by (auto simp: new_plate_def keeps_def unchanged_below_def)
  from assms have "allocated s \<le> allocated s'"
    by (simp add: keeps_def)
  moreover have "entities s' b = entities s b"
    using b f by (rule entities_cong)
  ultimately show ?thesis
    using assms(1) b by (auto simp: new_plate_def)
qed

lemma new_plate_Add:
  assumes "new_plate n s b" "n \<le> nf" "nf < allocated s"
    and "set (c_pads (footprint_at s nf)) \<subseteq> {n..}"
    and "set (c_graphics (footprint_at s nf)) \<subseteq> {n..}"
  shows "new_plate n (Add_footprint_ref b nf s) b"
  using assms by (auto simp: new_plate_def entities_def Add_footprint_ref_def)

lemma keeps_Add_footprint: "n \<le> b \<Longrightarrow> keeps n s (Add_footprint_ref b nf s)"
  by (simp add: Add_footprint_ref_def keeps_board_upd)

lemma new_plate_bounds: "new_plate n s b \<Longrightarrow> n \<le> b \<and> b < allocated s"
  by (simp add: new_plate_def entities_def)

lemma copy_footprints_ref_keeps:
  "copy_footprints_ref H layer_name pb fs plate s = (r, s') \<Longrightarrow> new_plate n s plate \<Longrightarrow>
     keeps n s s' \<and> new_plate n s' plate"
proof (induction fs arbitrary: s)
  case Nil
  then show ?case by simp
next
  case (Cons f fs)
  note b = new_plate_bounds [OF Cons.prems(2)]
  show ?case
  proof (cases "Intersects H (GetBoundingBox H (footprint_of s f)) pb")
    case False
    with Cons.prems(1) have "copy_footprints_ref H layer_name pb fs plate s = (r, s')"
      by simp
    from Cons.IH [OF this Cons.prems(2)] show ?thesis .
  next
    case True
    obtain nf s1 where c: "FOOTPRINT f s = (nf, s1)"
      by (cases "FOOTPRINT f s")
    note F = FOOTPRINT_keeps [OF c]
    define s2 where "s2 = SetPosition_ref nf (c_position (footprint_at s1 f)) s1"
    note P = SetPosition_ref_keeps [OF F(2,4,5), where pos = "c_position (footprint_at s1 f)",
        folded s2_def]
    have k2: "keeps (allocated s) s s2"
      using F(1) P(1) by (rule keeps_trans)
    have np2: "new_plate n s2 plate"
      using Cons.prems(2) k2 by (rule new_plate_keeps)
    have kn2: "keeps n s s2"
      using k2 b by (intro keeps_mono [OF k2]) simp
    have n_nf: "n \<le> nf"
      using b F(2) by simp
    have lists2: "set (c_pads (footprint_at s2 nf)) \<subseteq> {allocated s..}"
      "set (c_graphics (footprint_at s2 nf)) \<subseteq> {allocated s..}"
      using F(4,5) P(4,5) by simp_all
    show ?thesis
    proof (cases "preserved_whole (c_reference (footprint_at s2 f))")
      case whole: True
      define s3 where "s3 = Add_footprint_ref plate nf s2"
      from Cons.prems(1) True c whole have
        rest: "copy_footprints_ref H layer_name pb fs plate s3 = (r, s')"
        by (simp add: s2_def s3_def)
      have "new_plate n s3 plate"
        unfolding s3_def using np2 n_nf
      proof (rule new_plate_Add)
        show "nf < allocated s2" using F(3) P(2) by simp
        show "set (c_pads (footprint_at s2 nf)) \<subseteq> {n..}" using lists2(1) b by auto
        show "set (c_graphics (footprint_at s2 nf)) \<subseteq> {n..}" using lists2(2) b by auto
      qed
      from Cons.IH [OF rest this] have "keeps n s3 s'" "new_plate n s' plate"
        by simp_all
      moreover have "keeps n s2 s3"
        unfolding s3_def using b by (intro keeps_Add_footprint) simp
      ultimately show ?thesis
        using kn2 by (blast intro: keeps_trans)
    next
      case ordinary: False
      obtain r3 s3 where ff: "filter_footprint_ref H layer_name plate nf s2 = (r3, s3)"
        by (cases "filter_footprint_ref H layer_name plate nf s2")
      from filter_footprint_ref_keeps [OF ff F(2) lists2] obtain s5 where
        k5: "keeps (allocated s) s2 s5" and a5: "allocated s5 = allocated s2" and
        l5: "set (c_pads (footprint_at s5 nf)) \<subseteq> {allocated s..}"
            "set (c_graphics (footprint_at s5 nf)) \<subseteq> {allocated s..}" and
        s3: "s3 = s5 \<or> s3 = Add_footprint_ref plate nf s5"
        by blast
      have k05: "keeps (allocated s) s s5"
        using k2 k5 by (rule keeps_trans)
      have np5: "new_plate n s5 plate"
        using Cons.prems(2) k05 by (rule new_plate_keeps)
      have kn5: "keeps n s s5"
        using b by (intro keeps_mono [OF k05]) simp
      have np3: "new_plate n s3 plate" and kn3: "keeps n s s3"
      proof -
        have "new_plate n (Add_footprint_ref plate nf s5) plate"
          using np5 n_nf
        proof (rule new_plate_Add)
          show "nf < allocated s5" using F(3) P(2) a5 by simp
          show "set (c_pads (footprint_at s5 nf)) \<subseteq> {n..}" using l5(1) b by auto
          show "set (c_graphics (footprint_at s5 nf)) \<subseteq> {n..}" using l5(2) b by auto
        qed
        with np5 s3 show "new_plate n s3 plate" by auto
        have "keeps n s5 (Add_footprint_ref plate nf s5)"
          using b by (intro keeps_Add_footprint) simp
        with kn5 have "keeps n s (Add_footprint_ref plate nf s5)"
          by (rule keeps_trans)
        with kn5 s3 show "keeps n s s3" by auto
      qed
      show ?thesis
      proof (cases r3)
        case None
        with Cons.prems(1) True c ordinary ff have
          "copy_footprints_ref H layer_name pb fs plate s3 = (r, s')"
          by (simp add: s2_def)
        from Cons.IH [OF this np3] kn3 show ?thesis
          by (blast intro: keeps_trans)
      next
        case (Some e)
        with Cons.prems(1) True c ordinary ff have "s' = s3"
          by (simp add: s2_def)
        with np3 kn3 show ?thesis by simp
      qed
    qed
  qed
qed

lemma new_plate_drawing:
  assumes "new_plate n s b" "keeps (allocated s) s s1" "n \<le> d"
  shows "new_plate n (Add_drawing_ref b d s1) b"
proof -
  from new_plate_keeps [OF assms(1,2)] assms(3) show ?thesis
    by (auto simp: new_plate_def entities_def Add_drawing_ref_def)
qed

lemma copy_drawings_ref_keeps:
  "copy_drawings_ref H layer_name ds plate s = (r, s') \<Longrightarrow> new_plate n s plate \<Longrightarrow>
     keeps n s s' \<and> new_plate n s' plate"
proof (induction ds arbitrary: s)
  case Nil
  then show ?case by simp
next
  case (Cons d ds)
  note b = new_plate_bounds [OF Cons.prems(2)]
  define nd where "nd = allocated s"
  define s1 where
    "s1 = s\<lparr>allocated := Suc (allocated s), drawing_at := (drawing_at s)(allocated s := drawing_at s d)\<rparr>"
  have dup: "Duplicate_ref d s = (nd, s1)"
    by (simp add: Duplicate_ref_def nd_def s1_def)
  have k1: "keeps (allocated s) s s1"
    by (simp add: s1_def keeps_def unchanged_below_def)
  have kn1: "keeps n s s1"
    using b by (intro keeps_mono [OF k1]) simp
  have np1: "new_plate n s1 plate"
    using Cons.prems(2) k1 by (rule new_plate_keeps)
  have n_nd: "n \<le> nd"
    using b by (simp add: nd_def)
  have set_layer: "keeps (allocated s) s (drawing_SetLayer nd e s1)" for e
  proof -
    have "keeps (allocated s) s1 (drawing_SetLayer nd e s1)"
      unfolding drawing_SetLayer_def by (rule keeps_drawing_upd) (simp add: nd_def)
    with k1 show ?thesis by (rule keeps_trans)
  qed
  have added: "keeps n s (Add_drawing_ref plate nd s2) \<and> new_plate n (Add_drawing_ref plate nd s2) plate"
    if "keeps (allocated s) s s2" for s2
  proof -
    have "keeps n s s2"
      using b by (intro keeps_mono [OF that]) simp
    moreover have "keeps n s2 (Add_drawing_ref plate nd s2)"
      unfolding Add_drawing_ref_def using b by (intro keeps_board_upd) simp
    ultimately have "keeps n s (Add_drawing_ref plate nd s2)"
      by (rule keeps_trans)
    with new_plate_drawing [OF Cons.prems(2) that n_nd] show ?thesis by simp
  qed
  have step: "keeps n s s' \<and> new_plate n s' plate"
    if "copy_drawings_ref H layer_name ds plate s2 = (r, s')" "keeps n s s2" "new_plate n s2 plate"
    for s2
    using Cons.IH [OF that(1,3)] that(2) by (blast intro: keeps_trans)
  from Cons.prems(1) have
    "s' = s1 \<or>
     (\<exists>e. copy_drawings_ref H layer_name ds plate
             (Add_drawing_ref plate nd (drawing_SetLayer nd e s1)) = (r, s')) \<or>
     copy_drawings_ref H layer_name ds plate (Add_drawing_ref plate nd s1) = (r, s') \<or>
     copy_drawings_ref H layer_name ds plate s1 = (r, s')"
    unfolding copy_drawings_ref.simps dup
    by (auto simp: Let_def split: sum.splits if_splits)
  then show ?case
  proof (elim disjE exE)
    assume "s' = s1"
    with kn1 np1 show ?thesis by simp
  next
    fix e
    assume a: "copy_drawings_ref H layer_name ds plate
        (Add_drawing_ref plate nd (drawing_SetLayer nd e s1)) = (r, s')"
    note A = added [OF set_layer [of e]]
    from step [OF a A [THEN conjunct1] A [THEN conjunct2]] show ?thesis .
  next
    assume a: "copy_drawings_ref H layer_name ds plate (Add_drawing_ref plate nd s1) = (r, s')"
    note A = added [OF k1]
    from step [OF a A [THEN conjunct1] A [THEN conjunct2]] show ?thesis .
  next
    assume a: "copy_drawings_ref H layer_name ds plate s1 = (r, s')"
    from step [OF a kn1 np1] show ?thesis .
  qed
qed

lemma create_plate_ref_keeps:
  assumes "create_plate_pcb_from_layer_ref H board layer_name output_folder sfx s w = (r, s', w')"
  shows "keeps (allocated s) s s'"
    and "r = Inr (Some plate) \<Longrightarrow> new_plate (allocated s) s' plate"
proof -
  define path where "path = plate_file_path (c_filename (board_at s board)) output_folder sfx"
  define p where "p = allocated s"
  define s1 where
    "s1 = s\<lparr>allocated := Suc (allocated s),
            board_at := (board_at s)
              (allocated s := \<lparr>c_filename = path, c_drawings = [], c_footprints = []\<rparr>)\<rparr>"
  have nb: "NewBoard_ref path s = (p, s1)"
    by (simp add: NewBoard_ref_def p_def s1_def)
  have k1: "keeps (allocated s) s s1"
    by (simp add: s1_def keeps_def unchanged_below_def)
  have np1: "new_plate (allocated s) s1 p"
    by (simp add: new_plate_def entities_def s1_def p_def)
  obtain r2 s2 where d: "copy_drawings_ref H layer_name (c_drawings (board_at s1 board)) p s1 = (r2, s2)"
    by (cases "copy_drawings_ref H layer_name (c_drawings (board_at s1 board)) p s1")
  from copy_drawings_ref_keeps [OF d np1] have
    k2: "keeps (allocated s) s1 s2" and np2: "new_plate (allocated s) s2 p"
    by simp_all
  have k02: "keeps (allocated s) s s2"
    using k1 k2 by (rule keeps_trans)
  obtain r3 s3 where f: "copy_footprints_ref H layer_name
      (GetBoardEdgesBoundingBox H (board_of s2 p)) (c_footprints (board_at s2 board)) p s2 = (r3, s3)"
    by (cases "copy_footprints_ref H layer_name
      (GetBoardEdgesBoundingBox H (board_of s2 p)) (c_footprints (board_at s2 board)) p s2")
  from copy_footprints_ref_keeps [OF f np2] have
    k3: "keeps (allocated s) s2 s3" and np3: "new_plate (allocated s) s3 p"
    by simp_all
  have k03: "keeps (allocated s) s s3"
    using k02 k3 by (rule keeps_trans)
  define s4 where
    "s4 = s3\<lparr>board_at := (board_at s3)(p := (board_at s3 p)\<lparr>c_filename := path\<rparr>)\<rparr>"
  have k4: "keeps (allocated s) s3 s4"
    unfolding s4_def by (rule keeps_board_upd) (simp add: p_def)
  have k04: "keeps (allocated s) s s4"
    using k03 k4 by (rule keeps_trans)
  have np4: "new_plate (allocated s) s4 p"
    using np3 by (auto simp: new_plate_def entities_def s4_def)
  from assms have cases:
    "s' = s2 \<and> r \<noteq> Inr (Some plate) \<or> s' = s3 \<and> r \<noteq> Inr (Some plate) \<or>
     s' = s4 \<and> (r = Inr (Some plate) \<longrightarrow> plate = p)"
    unfolding create_plate_pcb_from_layer_ref_def Let_def path_def [symmetric] nb
    by (auto simp: d f s4_def split: option.splits if_splits)
  from cases k02 k03 k04 show "keeps (allocated s) s s'"
    by auto
  from cases np4 show "new_plate (allocated s) s' plate" if "r = Inr (Some plate)"
    using that by auto
qed

lemma board_of_unchanged:
  assumes "unchanged_below n s s'" "entities s b \<subseteq> {..<n}"
  shows "board_of s' b = board_of s b" and "entities s' b = entities s b"
proof -
  from assms have b: "board_at s' b = board_at s b"
    by (simp add: unchanged_below_def entities_def)
  from assms have d: "drawing_at s' d = drawing_at s d" if "d \<in> set (c_drawings (board_at s b))" for d
    using that by (auto simp: unchanged_below_def entities_def)
  from assms have f: "footprint_at s' f = footprint_at s f"
    if "f \<in> set (c_footprints (board_at s b))" for f
    using that by (auto simp: unchanged_below_def entities_def)
  from assms have p: "pad_at s' p = pad_at s p"
    if "f \<in> set (c_footprints (board_at s b))" "p \<in> set (c_pads (footprint_at s f))" for f p
    using that by (auto simp: unchanged_below_def entities_def)
  from assms have g: "graphic_at s' g = graphic_at s g"
    if "f \<in> set (c_footprints (board_at s b))" "g \<in> set (c_graphics (footprint_at s f))" for f g
    using that by (auto simp: unchanged_below_def entities_def)
  have "footprint_of s' f = footprint_of s f" if "f \<in> set (c_footprints (board_at s b))" for f
    using that f p g by (simp add: footprint_of_def cong: map_cong)
  with b d show "board_of s' b = board_of s b"
    by (simp add: board_of_def cong: map_cong)
  from b f show "entities s' b = entities s b"
    by (rule entities_cong)
qed

lemma example_run_result: "fst example_run = Inr (Some 7)"
  unfolding example_run_def by code_simp

lemma example_store_entities: "entities example_store 6 = {0, 1, 2, 3, 4, 5, 6}"
  by code_simp

lemma example_plate_entities: "entities example_store_after 7 = {7, 8, 9, 10, 11, 12, 13}"
  unfolding example_store_after_def example_run_def by code_simp

section \<open>The claims of the specification\<close>

subsection \<open>C5: the drawings of the plate\<close>

text \<open>
  Claim C5. The drawings of the source board are processed in source order. A shape
  (class \<^verbatim>\<open>PCB_SHAPE\<close>) on the reference layer is added to the plate as a duplicate
  moved to the edge cuts; otherwise a text (class \<^verbatim>\<open>PTEXT\<close>) on the front or the back
  silkscreen is added as an unmodified duplicate; otherwise nothing is added. So, when
  the four layer names resolve, the loop adds to the plate the drawings that
  \<open>spec_drawing_rule\<close> selects, in their order; these are the drawings of a derived
  plate; and no drawing is both a shape on the reference layer and a silkscreen text.
\<close>

theorem C5_drawings_in_source_order:
  assumes "GetLayerID H layer_name = Inr l" "GetLayerID H ''Edge.Cuts'' = Inr e"
    "GetLayerID H ''F.Silkscreen'' = Inr f" "GetLayerID H ''B.Silkscreen'' = Inr b"
  shows "copy_drawings H layer_name ds plate_pcb =
           Inr (plate_pcb\<lparr>b_drawings :=
                  b_drawings plate_pcb @ List.map_filter (spec_drawing_rule l e f b) ds\<rparr>) \<and>
         (create_plate_pcb_from_layer H board layer_name output_folder sfx w = (Inr (Some plate), w') \<longrightarrow>
            b_drawings plate = List.map_filter (spec_drawing_rule l e f b) (b_drawings board)) \<and>
         \<not> ((d_class d = ''PCB_SHAPE'' \<and> d_layer d = l) \<and>
            (d_class d = ''PTEXT'' \<and> (d_layer d = f \<or> d_layer d = b)))"
proof -
  note r = copy_drawings_resolved [OF assms]
  have "b_drawings plate = List.map_filter (spec_drawing_rule l e f b) (b_drawings board)"
    if "create_plate_pcb_from_layer H board layer_name output_folder sfx w = (Inr (Some plate), w')"
  proof -
    from create_plate_Some(1) [OF that]
    have "b_drawings (plate\<lparr>b_footprints := []\<rparr>) =
          b_drawings ((NewBoard (plate_file_path (b_filename board) output_folder sfx))
            \<lparr>b_drawings := b_drawings (NewBoard (plate_file_path (b_filename board) output_folder sfx)) @
               List.map_filter (spec_drawing_rule l e f b) (b_drawings board)\<rparr>)"
      unfolding r by simp
    then show ?thesis by (simp add: NewBoard_def)
  qed
  with r show ?thesis by simp
qed

text \<open>
  On the example board, with the front adhesive layer as the reference layer: the
  outline moves to the edge cuts, the silkscreen text is kept, the copper shape is left.
\<close>

theorem C5_drawings_in_source_order_witness:
  "List.map_filter (spec_drawing_rule 33 44 37 36) (b_drawings example_board) =
     b_drawings example_top_plate \<and>
   b_drawings example_top_plate =
     [\<lparr>d_class = ''PCB_SHAPE'', d_layer = 44, d_geometry = ((0, 0), (100, 50))\<rparr>,
      \<lparr>d_class = ''PTEXT'', d_layer = 37, d_geometry = ((10, 10), (20, 5))\<rparr>]"
proof -
  have 1: "GetLayerID example_host ''F.Adhesive'' = Inr 33" by code_simp
  have 2: "GetLayerID example_host ''Edge.Cuts'' = Inr 44" by code_simp
  have 3: "GetLayerID example_host ''F.Silkscreen'' = Inr 37" by code_simp
  have 4: "GetLayerID example_host ''B.Silkscreen'' = Inr 36" by code_simp
  from C5_drawings_in_source_order [OF 1 2 3 4, where board = example_board
      and output_folder = "''/proj/temp''" and sfx = "''top-plate''" and w = empty_world
      and plate = example_top_plate and w' = top_plate_world]
    example_top_plate_derived
  have "b_drawings example_top_plate =
          List.map_filter (spec_drawing_rule 33 44 37 36) (b_drawings example_board)"
    by blast
  then show ?thesis by (simp add: example_top_plate_def)
qed

subsection \<open>C3: mounting holes and logos\<close>

text \<open>
  Claim C3. When the four layer names resolve, the outline box of the plate has an area
  and the plate file is saved, the derivation returns the plate \<open>derived_plate\<close>, and a
  source footprint whose reference matches \<^verbatim>\<open>^(H|LOGO)\d+$\<close> and whose bounding box
  intersects the outline box of the plate is on that plate as an unmodified duplicate:
  the same reference, position, pads and graphical items. The footprints of the plate
  with such a reference are exactly these source footprints, in their order and as often
  as they occur.
\<close>

theorem C3_preserved_whole_footprints:
  fixes board :: board and output_folder sfx :: string
  assumes "GetLayerID H layer_name = Inr l" and "GetLayerID H ''Edge.Cuts'' = Inr e"
    and "GetLayerID H ''F.Silkscreen'' = Inr s" and "GetLayerID H ''B.Silkscreen'' = Inr b"
  defines "path \<equiv> plate_file_path (b_filename board) output_folder sfx"
  defines "plate \<equiv> derived_plate H l e s b board path"
  assumes "GetArea H (plate_outline H plate) \<noteq> 0" and "Save H path plate = None"
  shows "create_plate_pcb_from_layer H board layer_name output_folder sfx w =
           (Inr (Some plate), w\<lparr>saved := saved w @ [(path, plate)]\<rparr>) \<and>
         filter (\<lambda>g. preserved_whole (f_reference g)) (b_footprints plate) =
           filter (\<lambda>g. preserved_whole (f_reference g) \<and>
                        Intersects H (GetBoundingBox H g) (plate_outline H plate))
             (b_footprints board) \<and>
         (f \<in> set (b_footprints board) \<and> preserved_whole (f_reference f) \<and>
          Intersects H (GetBoundingBox H f) (plate_outline H plate) \<longrightarrow>
            f \<in> set (b_footprints plate))"
proof -
  have r: "create_plate_pcb_from_layer H board layer_name output_folder sfx w =
      (Inr (Some plate), w\<lparr>saved := saved w @ [(path, plate)]\<rparr>)"
    using assms(7,8) unfolding plate_def path_def by (rule create_plate_produces [OF assms(1-4)])
  from r preserved_whole_on_plate [OF r] show ?thesis
    by blast
qed

text \<open>
  On the example board: the derivation returns the top plate; \<open>H1\<close> is on it as it is
  on the board, and \<open>H2\<close>, far from the outline, is not.
\<close>

theorem C3_preserved_whole_footprints_witness:
  "create_plate_pcb_from_layer example_host example_board ''F.Adhesive'' ''/proj/temp''
     ''top-plate'' empty_world = (Inr (Some example_top_plate), top_plate_world) \<and>
   filter (\<lambda>g. preserved_whole (f_reference g)) (b_footprints example_top_plate) =
     filter (\<lambda>g. preserved_whole (f_reference g) \<and>
                  Intersects example_host (GetBoundingBox example_host g)
                    (plate_outline example_host example_top_plate))
       (b_footprints example_board) \<and>
   filter (\<lambda>g. preserved_whole (f_reference g)) (b_footprints example_top_plate) =
     [example_H1] \<and>
   example_H1 \<in> set (b_footprints example_top_plate)"
proof -
  have l: "GetLayerID example_host ''F.Adhesive'' = Inr 33"
    "GetLayerID example_host ''Edge.Cuts'' = Inr 44"
    "GetLayerID example_host ''F.Silkscreen'' = Inr 37"
    "GetLayerID example_host ''B.Silkscreen'' = Inr 36"
    by code_simp+
  have a: "GetArea example_host (plate_outline example_host example_top_plate) \<noteq> 0"
    unfolding example_outline by code_simp
  have s: "Save example_host ''/proj/temp/horizon-top-plate.kicad_pcb'' example_top_plate = None"
    by (simp add: example_host_def)
  have w: "empty_world\<lparr>saved := saved empty_world @
      [(''/proj/temp/horizon-top-plate.kicad_pcb'', example_top_plate)]\<rparr> = top_plate_world"
    by (simp add: empty_world_def top_plate_world_def)
  have h: "example_H1 \<in> set (b_footprints example_board)"
    by (simp add: example_board_def)
  have p: "preserved_whole (f_reference example_H1)"
    by code_simp
  have i: "Intersects example_host (GetBoundingBox example_host example_H1)
      (plate_outline example_host example_top_plate)"
    unfolding example_outline by code_simp
  have f: "filter (\<lambda>g. preserved_whole (f_reference g)) (b_footprints example_top_plate) =
     [example_H1]"
    by code_simp
  from C3_preserved_whole_footprints [where H = example_host and layer_name = "''F.Adhesive''"
      and board = example_board and output_folder = "''/proj/temp''" and sfx = "''top-plate''"
      and w = empty_world and f = example_H1, OF l,
      unfolded example_plate_file_path example_derived_plate w, OF a s]
  show ?thesis
    using h p i f by simp
qed

subsection \<open>C4: ordinary footprints are kept when something is left of them\<close>

text \<open>
  Claim C4. When the four layer names resolve, the outline box of the plate has an area
  and the plate file is saved, the derivation returns the plate \<open>derived_plate\<close>, and an
  ordinary source footprint (its reference does not match the pattern) whose bounding
  box intersects the outline box is always filtered: its filtered duplicate is on the
  plate if and only if it has a pad or a graphical item left, and with exactly one pad
  left it is on the plate.
\<close>

theorem C4_ordinary_footprints:
  fixes board :: board and output_folder sfx :: string
  assumes "GetLayerID H layer_name = Inr l" and "GetLayerID H ''Edge.Cuts'' = Inr e"
    and "GetLayerID H ''F.Silkscreen'' = Inr s" and "GetLayerID H ''B.Silkscreen'' = Inr b"
  defines "path \<equiv> plate_file_path (b_filename board) output_folder sfx"
  defines "plate \<equiv> derived_plate H l e s b board path"
  assumes "GetArea H (plate_outline H plate) \<noteq> 0" and "Save H path plate = None"
    and "f \<in> set (b_footprints board)"
    and "\<not> preserved_whole (f_reference f)"
    and "Intersects H (GetBoundingBox H f) (plate_outline H plate)"
  defines "nf \<equiv> filtered H l e f"
  shows "create_plate_pcb_from_layer H board layer_name output_folder sfx w =
           (Inr (Some plate), w\<lparr>saved := saved w @ [(path, plate)]\<rparr>) \<and>
         filter_footprint H layer_name (footprint_SetPosition f (f_position f)) = Inr nf \<and>
         copy_footprint H layer_name (plate_outline H plate) f =
           Inr (if length (f_pads nf) > 0 \<or> length (f_graphics nf) > 0 then Some nf else None) \<and>
         (nf \<in> set (b_footprints plate) \<longleftrightarrow> f_pads nf \<noteq> [] \<or> f_graphics nf \<noteq> []) \<and>
         (length (f_pads nf) = 1 \<longrightarrow> nf \<in> set (b_footprints plate))"
proof -
  have r: "create_plate_pcb_from_layer H board layer_name output_folder sfx w =
      (Inr (Some plate), w\<lparr>saved := saved w @ [(path, plate)]\<rparr>)"
    using assms(7,8) unfolding plate_def path_def by (rule create_plate_produces [OF assms(1-4)])
  have n: "filter_footprint H layer_name f = Inr nf"
    unfolding nf_def using assms(1,2) by (intro filter_footprint_resolved) simp_all
  note o = ordinary_on_plate [OF r assms(9-11) n]
  have one: "f_pads nf \<noteq> []" if "length (f_pads nf) = 1"
    using that by auto
  from r n o one show ?thesis
    by simp
qed

text \<open>
  On the example board: the derivation returns the top plate; the switch \<open>SW1\<close>, on the
  border of the outline, keeps its oval pad as the one pad of its duplicate, and the
  duplicate is on the top plate.
\<close>

theorem C4_ordinary_footprints_witness:
  "create_plate_pcb_from_layer example_host example_board ''F.Adhesive'' ''/proj/temp''
     ''top-plate'' empty_world = (Inr (Some example_top_plate), top_plate_world) \<and>
   filter_footprint example_host ''F.Adhesive'' example_SW1 = Inr example_SW1_on_plate \<and>
   copy_footprint example_host ''F.Adhesive'' (plate_outline example_host example_top_plate)
     example_SW1 = Inr (Some example_SW1_on_plate) \<and>
   length (f_pads example_SW1_on_plate) = 1 \<and>
   example_SW1_on_plate \<in> set (b_footprints example_top_plate)"
proof -
  have l: "GetLayerID example_host ''F.Adhesive'' = Inr 33"
    "GetLayerID example_host ''Edge.Cuts'' = Inr 44"
    "GetLayerID example_host ''F.Silkscreen'' = Inr 37"
    "GetLayerID example_host ''B.Silkscreen'' = Inr 36"
    by code_simp+
  have a: "GetArea example_host (plate_outline example_host example_top_plate) \<noteq> 0"
    unfolding example_outline by code_simp
  have s: "Save example_host ''/proj/temp/horizon-top-plate.kicad_pcb'' example_top_plate = None"
    by (simp add: example_host_def)
  have w: "empty_world\<lparr>saved := saved empty_world @
      [(''/proj/temp/horizon-top-plate.kicad_pcb'', example_top_plate)]\<rparr> = top_plate_world"
    by (simp add: empty_world_def top_plate_world_def)
  have h: "example_SW1 \<in> set (b_footprints example_board)"
    by (simp add: example_board_def)
  have n: "filtered example_host 33 44 example_SW1 = example_SW1_on_plate"
    by code_simp
  have one: "length (f_pads example_SW1_on_plate) = 1" "f_pads example_SW1_on_plate \<noteq> []"
    by (simp_all add: example_SW1_on_plate_def)
  from C4_ordinary_footprints [where H = example_host and layer_name = "''F.Adhesive''"
      and board = example_board and output_folder = "''/proj/temp''" and sfx = "''top-plate''"
      and w = empty_world and f = example_SW1, OF l,
      unfolded example_plate_file_path example_derived_plate w n, OF a s h example_SW1_ordinary
      example_SW1_intersects]
  show ?thesis
    using one by simp
qed

subsection \<open>C6: what is left of an ordinary footprint\<close>

text \<open>
  Claim C6. On a derived plate, every pad of an ordinary footprint is an unplated hole
  (attribute \<^verbatim>\<open>NPTH\<close>, on the layers of the unplated-hole mask) and every graphical
  item of an ordinary footprint is on the edge cuts: nothing else of the footprint is on
  the plate.
\<close>

theorem C6_ordinary_footprint_content:
  assumes "create_plate_pcb_from_layer H board layer_name output_folder sfx w = (Inr (Some plate), w')"
    and "nf \<in> set (b_footprints plate)"
    and "\<not> preserved_whole (f_reference nf)"
  shows "(\<forall>q \<in> set (f_pads nf). p_attribute q = PAD_ATTRIB_NPTH \<and> p_layers q = UnplatedHoleMask H) \<and>
         (\<forall>g \<in> set (f_graphics nf).
            \<exists>e. GetLayerID H ''Edge.Cuts'' = Inr e \<and> graphic_IsOnLayer g e)"
proof -
  from ordinary_origin [OF assms] obtain f where
    f: "filter_footprint H layer_name f = Inr nf" and
    ne: "f_pads nf \<noteq> [] \<or> f_graphics nf \<noteq> []"
    by blast
  from filter_footprint_Inr [OF f] ne obtain l where
    c: "(\<exists>e. GetLayerID H ''Edge.Cuts'' = Inr e \<and> nf = filtered H l e f) \<or>
        ((\<forall>g \<in> set (f_graphics f). \<not> graphic_IsOnLayer g l) \<and> nf = filtered H l 0 f)"
    by auto
  then have pads: "f_pads nf = map (to_npth H) (filter (eligible l) (f_pads f))"
    by (auto simp: filtered_pads)
  have "p_attribute q = PAD_ATTRIB_NPTH \<and> p_layers q = UnplatedHoleMask H"
    if "q \<in> set (f_pads nf)" for q
    using that unfolding pads by (auto simp: to_npth_eq)
  moreover have "\<exists>e. GetLayerID H ''Edge.Cuts'' = Inr e \<and> graphic_IsOnLayer g e"
    if "g \<in> set (f_graphics nf)" for g
    using c that by (auto simp: filtered_graphics graphic_IsOnLayer_def)
  ultimately show ?thesis by blast
qed

text \<open>
  On the example board: the switch on the top plate has one pad, an unplated hole, and
  its graphical items are on the edge cuts.
\<close>

theorem C6_ordinary_footprint_content_witness:
  "f_pads example_SW1_on_plate = [example_hole] \<and>
   p_attribute example_hole = PAD_ATTRIB_NPTH \<and>
   p_layers example_hole = UnplatedHoleMask example_host \<and>
   GetLayerID example_host ''Edge.Cuts'' = Inr 44 \<and>
   list_all (\<lambda>g. graphic_IsOnLayer g 44) (f_graphics example_SW1_on_plate)"
proof -
  have "example_SW1_on_plate \<in> set (b_footprints example_top_plate)"
    by (simp add: example_top_plate_def)
  from C6_ordinary_footprint_content [OF example_top_plate_derived this
      example_SW1_on_plate_ordinary]
  have "\<forall>q \<in> set (f_pads example_SW1_on_plate).
          p_attribute q = PAD_ATTRIB_NPTH \<and> p_layers q = UnplatedHoleMask example_host"
    and "\<forall>g \<in> set (f_graphics example_SW1_on_plate).
          \<exists>e. GetLayerID example_host ''Edge.Cuts'' = Inr e \<and> graphic_IsOnLayer g e"
    by blast+
  moreover have pads: "f_pads example_SW1_on_plate = [example_hole]"
    by (simp add: example_SW1_on_plate_def)
  moreover have e: "GetLayerID example_host ''Edge.Cuts'' = Inr 44"
    by code_simp
  ultimately show ?thesis
    by (simp add: list_all_iff)
qed

subsection \<open>C1: the pads of a derived plate\<close>

text \<open>
  Claim C1, as amended. Every pad of an ordinary footprint of a derived plate comes
  from a circular or oval pad of the source footprint that is on the reference layer: it
  is unplated (\<^verbatim>\<open>NPTH\<close>), its drill is circular for a circular pad and oblong for an
  oval one, its drill size is the size of the pad, its layer set is the unplated-hole
  mask, and its position, shape and size are those of the source pad. The claim as
  stated, for every pad of the plate, fails on the pads of the footprints that are
  copied whole (\<open>H\<close> and \<open>LOGO\<close>), which stay as they are.
\<close>

theorem C1_pads_of_ordinary_footprints:
  assumes "create_plate_pcb_from_layer H board layer_name output_folder sfx w = (Inr (Some plate), w')"
    and "nf \<in> set (b_footprints plate)"
    and "\<not> preserved_whole (f_reference nf)"
    and "q \<in> set (f_pads nf)"
  shows "\<exists>f \<in> set (b_footprints board). \<exists>p \<in> set (f_pads f). \<exists>l.
           f_reference f = f_reference nf \<and> GetLayerID H layer_name = Inr l \<and>
           pad_IsOnLayer p l \<and>
           (p_shape p = PAD_SHAPE_CIRCLE \<and> p_drill_shape q = PAD_DRILL_SHAPE_CIRCLE \<or>
            p_shape p = PAD_SHAPE_OVAL \<and> p_drill_shape q = PAD_DRILL_SHAPE_OBLONG) \<and>
           p_attribute q = PAD_ATTRIB_NPTH \<and>
           p_drill_size q = p_size p \<and>
           p_layers q = UnplatedHoleMask H \<and>
           p_position q = p_position p \<and>
           p_shape q = p_shape p \<and> p_size q = p_size p"
proof -
  from ordinary_origin [OF assms(1-3)] obtain f where
    f: "f \<in> set (b_footprints board)" "f_reference f = f_reference nf"
       "filter_footprint H layer_name f = Inr nf"
    by blast
  from filter_footprint_Inr [OF f(3)] assms(4) obtain l where
    l: "GetLayerID H layer_name = Inr l" and
    pads: "f_pads nf = map (to_npth H) (filter (eligible l) (f_pads f))"
    by (auto simp: filtered_pads)
  from assms(4) obtain p where
    p: "p \<in> set (f_pads f)" "eligible l p" "q = to_npth H p"
    unfolding pads by auto
  show ?thesis
    using f(1,2) l p by (intro bexI [of _ f] bexI [of _ p] exI [of _ l]) (auto simp: to_npth_eq eligible_def)
qed

text \<open>
  On the example board: the hole of the switch on the top plate comes from the oval pad
  of the switch.
\<close>

theorem C1_pads_of_ordinary_footprints_witness:
  "example_hole \<in> set (f_pads example_SW1_on_plate) \<and>
   (\<exists>p \<in> set (f_pads example_SW1).
      p_shape p = PAD_SHAPE_OVAL \<and> p_drill_shape example_hole = PAD_DRILL_SHAPE_OBLONG \<and>
      p_attribute example_hole = PAD_ATTRIB_NPTH \<and> p_drill_size example_hole = p_size p \<and>
      p_position example_hole = p_position p)"
proof -
  have 1: "example_SW1_on_plate \<in> set (b_footprints example_top_plate)"
    by (simp add: example_top_plate_def)
  have 2: "example_hole \<in> set (f_pads example_SW1_on_plate)"
    by (simp add: example_SW1_on_plate_def)
  have 3: "f = example_SW1"
    if "f \<in> set (b_footprints example_board)" "f_reference f = f_reference example_SW1_on_plate" for f
    using that
    by (auto simp: example_board_def example_H1_def example_R1_def example_H2_def
        example_SW1_on_plate_def)
  have 4: "p_drill_shape example_hole = PAD_DRILL_SHAPE_OBLONG"
    by (simp add: example_hole_def)
  from C1_pads_of_ordinary_footprints [OF example_top_plate_derived 1
      example_SW1_on_plate_ordinary 2] 3 4
  have "\<exists>p \<in> set (f_pads example_SW1).
      p_shape p = PAD_SHAPE_OVAL \<and> p_drill_shape example_hole = PAD_DRILL_SHAPE_OBLONG \<and>
      p_attribute example_hole = PAD_ATTRIB_NPTH \<and> p_drill_size example_hole = p_size p \<and>
      p_position example_hole = p_position p"
    by fastforce
  with 2 show ?thesis by blast
qed

text \<open>
  On the example board: the pad of the mounting hole \<open>H1\<close> is on the top plate, and it
  is plated and on its own layers.
\<close>

theorem C1_counterexample:
  "fst (create_plate_pcb_from_layer example_host example_board ''F.Adhesive'' ''/proj/temp''
          ''top-plate'' empty_world) = Inr (Some example_top_plate) \<and>
   example_H1 \<in> set (b_footprints example_top_plate) \<and>
   example_pad PAD_SHAPE_CIRCLE PAD_ATTRIB_PTH {0, 31} (10, 10) \<in> set (f_pads example_H1) \<and>
   p_attribute (example_pad PAD_SHAPE_CIRCLE PAD_ATTRIB_PTH {0, 31} (10, 10)) = PAD_ATTRIB_PTH \<and>
   p_layers (example_pad PAD_SHAPE_CIRCLE PAD_ATTRIB_PTH {0, 31} (10, 10)) \<noteq>
     UnplatedHoleMask example_host"
  by (simp add: example_top_plate_derived) code_simp

subsection \<open>C10: the name of the plate file\<close>

text \<open>
  Claim C10, as amended. The plate file name is the source file name with every
  occurrence of \<^verbatim>\<open>.kicad_pcb\<close> replaced: a name that does not contain
  \<^verbatim>\<open>.kicad_pcb\<close> is left unchanged, and otherwise the hyphen and the suffix are
  inserted before the first occurrence and again in the rest of the name, after that
  occurrence. A derived plate has this name, in the output folder, as its file name, and
  is saved under it. The claim as stated, with the suffix inserted before the first
  occurrence only, fails on a name with two occurrences.
\<close>

theorem C10_plate_file_name:
  "(\<not> contains name ''.kicad_pcb'' \<longrightarrow> plate_file_name name sfx = name) \<and>
   (str_find name ''.kicad_pcb'' = Some i \<longrightarrow>
      plate_file_name name sfx =
        take i name @ ''-'' @ sfx @ ''.kicad_pcb'' @ plate_file_name (drop (i + 10) name) sfx) \<and>
   (create_plate_pcb_from_layer H board layer_name output_folder sfx w = (Inr (Some plate), w') \<longrightarrow>
      b_filename plate =
        path_join output_folder (plate_file_name (snd (path_split (b_filename board))) sfx) \<and>
      w' = w\<lparr>saved := saved w @ [(b_filename plate, plate)]\<rparr>)"
proof -
  have a: "plate_file_name name sfx = name" if "\<not> contains name ''.kicad_pcb''"
    using that replace_nonempty_absent [of "''.kicad_pcb''" name]
    by (simp add: plate_file_name_def str_replace_def str_find_contains)
  have b: "plate_file_name name sfx =
        take i name @ ''-'' @ sfx @ ''.kicad_pcb'' @ plate_file_name (drop (i + 10) name) sfx"
    if "str_find name ''.kicad_pcb'' = Some i"
    using replace_nonempty_first [OF _ that, of "''-'' @ sfx @ ''.kicad_pcb''"]
    by (simp add: plate_file_name_def str_replace_def eval_nat_numeral)
  have c: "b_filename plate =
        path_join output_folder (plate_file_name (snd (path_split (b_filename board))) sfx) \<and>
      w' = w\<lparr>saved := saved w @ [(b_filename plate, plate)]\<rparr>"
    if "create_plate_pcb_from_layer H board layer_name output_folder sfx w = (Inr (Some plate), w')"
    using create_plate_Some(5,7) [OF that] by (simp add: plate_file_path_def)
  from a b c show ?thesis by blast
qed

text \<open>
  A name without the extension, a name with the extension in the middle, and the file of
  the example top plate.
\<close>

theorem C10_plate_file_name_witness:
  "plate_file_name ''horizon.kicad_pro'' ''top-plate'' = ''horizon.kicad_pro'' \<and>
   plate_file_name ''a.kicad_pcb.bak'' ''top-plate'' =
     ''a'' @ ''-top-plate.kicad_pcb'' @ plate_file_name ''.bak'' ''top-plate'' \<and>
   b_filename example_top_plate = ''/proj/temp/horizon-top-plate.kicad_pcb'' \<and>
   saved top_plate_world = [(''/proj/temp/horizon-top-plate.kicad_pcb'', example_top_plate)]"
proof -
  have 1: "\<not> contains ''horizon.kicad_pro'' ''.kicad_pcb''" by code_simp
  have 2: "str_find ''a.kicad_pcb.bak'' ''.kicad_pcb'' = Some 1" by code_simp
  from C10_plate_file_name [where name = "''horizon.kicad_pro''" and sfx = "''top-plate''"] 1
  have a: "plate_file_name ''horizon.kicad_pro'' ''top-plate'' = ''horizon.kicad_pro''"
    by blast
  from C10_plate_file_name [where name = "''a.kicad_pcb.bak''" and i = 1 and sfx = "''top-plate''"] 2
  have b: "plate_file_name ''a.kicad_pcb.bak'' ''top-plate'' =
     ''a'' @ ''-top-plate.kicad_pcb'' @ plate_file_name ''.bak'' ''top-plate''"
    by simp
  from C10_plate_file_name [where H = example_host and board = example_board
      and layer_name = "''F.Adhesive''" and output_folder = "''/proj/temp''"
      and sfx = "''top-plate''" and w = empty_world and plate = example_top_plate
      and w' = top_plate_world] example_top_plate_derived
  have c: "top_plate_world =
     empty_world\<lparr>saved := saved empty_world @ [(b_filename example_top_plate, example_top_plate)]\<rparr>"
    by blast
  have d: "b_filename example_top_plate = ''/proj/temp/horizon-top-plate.kicad_pcb''"
    by (simp add: example_top_plate_def)
  have "saved top_plate_world = [(''/proj/temp/horizon-top-plate.kicad_pcb'', example_top_plate)]"
    by (subst c) (simp add: d empty_world_def)
  with a b d show ?thesis by blast
qed

text \<open>
  With two occurrences the suffix is inserted twice, the second time before the file
  extension.
\<close>

theorem C10_counterexample:
  "contains ''a.kicad_pcb.kicad_pcb'' ''.kicad_pcb'' \<and>
   spec_plate_file_name ''a.kicad_pcb.kicad_pcb'' ''top-plate'' =
     ''a-top-plate.kicad_pcb.kicad_pcb'' \<and>
   plate_file_name ''a.kicad_pcb.kicad_pcb'' ''top-plate'' =
     ''a-top-plate.kicad_pcb-top-plate.kicad_pcb''"
  by code_simp

subsection \<open>C2: no outline, no plate\<close>

text \<open>
  Claim C2. When the box of the edge cuts of the plate, after the loop over the drawings,
  has area zero, the derivation returns \<^verbatim>\<open>None\<close> and leaves the file system as it
  was: no plate file is saved. In \<^verbatim>\<open>produce\<close> such a plate is not in the list of
  boards for which artifacts are generated, neither as the bottom plate nor as the top
  plate.
\<close>

theorem C2_zero_area_no_plate:
  assumes "copy_drawings H layer_name (b_drawings board)
             (NewBoard (plate_file_path (b_filename board) output_folder sfx)) = Inr plate1"
    and "GetArea H (GetBoardEdgesBoundingBox H plate1) = 0"
  shows "create_plate_pcb_from_layer H board layer_name output_folder sfx w = (Inr None, w) \<and>
         (layer_name = ''B.Adhesive'' \<and> sfx = ''bottom-plate'' \<and>
          create_plate_pcb_from_layer H board ''F.Adhesive'' output_folder ''top-plate'' w =
            (Inr top_plate, w2) \<longrightarrow>
            produce H board output_folder output_path w =
              produce_boards H output_folder output_path (board # returned top_plate) w2) \<and>
         (layer_name = ''F.Adhesive'' \<and> sfx = ''top-plate'' \<and>
          create_plate_pcb_from_layer H board ''B.Adhesive'' output_folder ''bottom-plate'' w0 =
            (Inr bottom_plate, w) \<longrightarrow>
            produce H board output_folder output_path w0 =
              produce_boards H output_folder output_path (board # returned bottom_plate) w)"
proof -
  note none = create_plate_zero_area [OF assms]
  have bottom: "produce H board output_folder output_path w =
              produce_boards H output_folder output_path (board # returned top_plate) w2"
    if "layer_name = ''B.Adhesive''" "sfx = ''bottom-plate''"
       "create_plate_pcb_from_layer H board ''F.Adhesive'' output_folder ''top-plate'' w =
          (Inr top_plate, w2)"
    using produce_derived [OF none [of w, unfolded that(1,2)] that(3)]
    by (simp add: returned_def)
  have top: "produce H board output_folder output_path w0 =
              produce_boards H output_folder output_path (board # returned bottom_plate) w"
    if "layer_name = ''F.Adhesive''" "sfx = ''top-plate''"
       "create_plate_pcb_from_layer H board ''B.Adhesive'' output_folder ''bottom-plate'' w0 =
          (Inr bottom_plate, w)"
    using produce_derived [OF that(3) none [of w, unfolded that(1,2)]]
    by (simp add: returned_def)
  from none bottom top show ?thesis by blast
qed

text \<open>
  On the example board, which has no outline on the back adhesive layer: no bottom plate,
  and artifacts for the board and its top plate only.
\<close>

theorem C2_zero_area_no_plate_witness:
  "create_plate_pcb_from_layer example_host example_board ''B.Adhesive'' ''/proj/temp''
     ''bottom-plate'' empty_world = (Inr None, empty_world) \<and>
   produce example_host example_board ''/proj/temp'' ''/proj/gerbers'' empty_world =
     produce_boards example_host ''/proj/temp'' ''/proj/gerbers''
       [example_board, example_top_plate] top_plate_world"
proof -
  have 1: "copy_drawings example_host ''B.Adhesive'' (b_drawings example_board)
             (NewBoard (plate_file_path (b_filename example_board) ''/proj/temp'' ''bottom-plate'')) =
           Inr \<lparr>b_filename = ''/proj/temp/horizon-bottom-plate.kicad_pcb'',
                b_drawings = [\<lparr>d_class = ''PTEXT'', d_layer = 37, d_geometry = ((10, 10), (20, 5))\<rparr>],
                b_footprints = []\<rparr>"
    by code_simp
  have 2: "GetArea example_host (GetBoardEdgesBoundingBox example_host
             \<lparr>b_filename = ''/proj/temp/horizon-bottom-plate.kicad_pcb'',
              b_drawings = [\<lparr>d_class = ''PTEXT'', d_layer = 37, d_geometry = ((10, 10), (20, 5))\<rparr>],
              b_footprints = []\<rparr>) = 0"
    by code_simp
  from C2_zero_area_no_plate [OF 1 2, where w = empty_world and top_plate = "Some example_top_plate"
      and ?w2.0 = top_plate_world and output_path = "''/proj/gerbers''"]
    example_top_plate_derived
  show ?thesis by (simp add: returned_def)
qed

subsection \<open>C8: a reference layer that does not resolve\<close>

text \<open>
  Claim C8, as amended. The derivation does not check the reference layer name; it
  hands the name to the layer lookup of the host. When that lookup raises, the
  processing of any drawing raises the same error, so on a source board with a drawing
  the derivation raises that error, with nothing saved. On a source board without
  drawings, whatever the lookup does, the derivation returns \<^verbatim>\<open>None\<close> when the empty
  plate has an outline box of area zero. When the lookup answers with a layer
  identifier, whichever it is, and the three other layer names resolve, the derivation
  proceeds normally: it returns \<^verbatim>\<open>None\<close> when the outline box has area zero, and
  otherwise the plate built for that identifier, or the error of saving it. The claim
  as stated, that derivation fails for every board, does not hold.
\<close>

theorem C8_unresolvable_layer:
  "(GetLayerID H layer_name = Inl er \<longrightarrow>
      copy_drawing H layer_name d = Inl er \<and>
      (b_drawings board \<noteq> [] \<longrightarrow>
         create_plate_pcb_from_layer H board layer_name output_folder sfx w = (Inl er, w))) \<and>
   (b_drawings board = [] \<and>
    GetArea H (GetBoardEdgesBoundingBox H
      (NewBoard (plate_file_path (b_filename board) output_folder sfx))) = 0 \<longrightarrow>
      create_plate_pcb_from_layer (H\<lparr>GetLayerID := lookup\<rparr>) board layer_name output_folder
        sfx w = (Inr None, w)) \<and>
   (GetLayerID H layer_name = Inr l \<and> GetLayerID H ''Edge.Cuts'' = Inr e \<and>
    GetLayerID H ''F.Silkscreen'' = Inr s \<and> GetLayerID H ''B.Silkscreen'' = Inr b \<longrightarrow>
      create_plate_pcb_from_layer H board layer_name output_folder sfx w =
        (let path = plate_file_path (b_filename board) output_folder sfx;
             plate = derived_plate H l e s b board path
         in if GetArea H (plate_outline H plate) = 0 then (Inr None, w)
            else case Save H path plate of
                   Some io \<Rightarrow> (Inl io, w)
                 | None \<Rightarrow> (Inr (Some plate), w\<lparr>saved := saved w @ [(path, plate)]\<rparr>)))"
proof (intro conjI impI)
  assume a: "GetLayerID H layer_name = Inl er"
  then show "copy_drawing H layer_name d = Inl er"
    by (rule copy_drawing_raises)
  assume "b_drawings board \<noteq> []"
  with a show "create_plate_pcb_from_layer H board layer_name output_folder sfx w = (Inl er, w)"
    by (simp add: create_plate_pcb_from_layer_def copy_drawings_raises)
next
  assume "b_drawings board = [] \<and>
    GetArea H (GetBoardEdgesBoundingBox H
      (NewBoard (plate_file_path (b_filename board) output_folder sfx))) = 0"
  then show "create_plate_pcb_from_layer (H\<lparr>GetLayerID := lookup\<rparr>) board layer_name
      output_folder sfx w = (Inr None, w)"
    by (simp add: create_plate_undrawn)
next
  assume "GetLayerID H layer_name = Inr l \<and> GetLayerID H ''Edge.Cuts'' = Inr e \<and>
    GetLayerID H ''F.Silkscreen'' = Inr s \<and> GetLayerID H ''B.Silkscreen'' = Inr b"
  then show "create_plate_pcb_from_layer H board layer_name output_folder sfx w =
        (let path = plate_file_path (b_filename board) output_folder sfx;
             plate = derived_plate H l e s b board path
         in if GetArea H (plate_outline H plate) = 0 then (Inr None, w)
            else case Save H path plate of
                   Some io \<Rightarrow> (Inl io, w)
                 | None \<Rightarrow> (Inr (Some plate), w\<lparr>saved := saved w @ [(path, plate)]\<rparr>))"
    by (intro create_plate_resolved) simp_all
qed

text \<open>
  With a lookup that raises on the name: an error for the first drawing and for the
  example board, and no plate for the example board without its drawings. With a lookup
  that answers: no plate for the identifier of the undefined layer, and the top plate
  for the front adhesive layer.
\<close>

theorem C8_unresolvable_layer_witness:
  "copy_drawing strict_host ''Plate.Outline'' (hd (b_drawings example_board)) =
     Inl (UnresolvableLayer ''Plate.Outline'') \<and>
   create_plate_pcb_from_layer strict_host example_board ''Plate.Outline'' ''/proj/temp''
     ''top-plate'' empty_world = (Inl (UnresolvableLayer ''Plate.Outline''), empty_world) \<and>
   create_plate_pcb_from_layer strict_host undrawn_board ''Plate.Outline'' ''/proj/temp''
     ''top-plate'' empty_world = (Inr None, empty_world) \<and>
   create_plate_pcb_from_layer example_host example_board ''Plate.Outline'' ''/proj/temp''
     ''top-plate'' empty_world = (Inr None, empty_world) \<and>
   create_plate_pcb_from_layer strict_host example_board ''F.Adhesive'' ''/proj/temp''
     ''top-plate'' empty_world = (Inr (Some example_top_plate), top_plate_world)"
proof -
  have 1: "GetLayerID strict_host ''Plate.Outline'' = Inl (UnresolvableLayer ''Plate.Outline'')"
    by code_simp
  have 2: "b_drawings example_board \<noteq> []"
    by (simp add: example_board_def)
  have 3: "b_drawings undrawn_board = []"
    by (simp add: undrawn_board_def)
  have 4: "GetArea example_host (GetBoardEdgesBoundingBox example_host
            (NewBoard (plate_file_path (b_filename undrawn_board) ''/proj/temp'' ''top-plate''))) = 0"
    by code_simp
  have 5: "example_host\<lparr>GetLayerID := GetLayerID strict_host\<rparr> = strict_host"
    by (simp add: strict_host_def)
  have 6: "GetLayerID example_host ''Plate.Outline'' = Inr (- 1) \<and>
    GetLayerID example_host ''Edge.Cuts'' = Inr 44 \<and>
    GetLayerID example_host ''F.Silkscreen'' = Inr 37 \<and>
    GetLayerID example_host ''B.Silkscreen'' = Inr 36"
    by code_simp
  have 7: "GetArea example_host (plate_outline example_host
      (derived_plate example_host (- 1) 44 37 36 example_board
        (plate_file_path (b_filename example_board) ''/proj/temp'' ''top-plate''))) = 0"
    by code_simp
  have 8: "GetLayerID strict_host ''F.Adhesive'' = Inr 33 \<and>
    GetLayerID strict_host ''Edge.Cuts'' = Inr 44 \<and>
    GetLayerID strict_host ''F.Silkscreen'' = Inr 37 \<and>
    GetLayerID strict_host ''B.Silkscreen'' = Inr 36"
    by code_simp
  have 9: "derived_plate strict_host 33 44 37 36 example_board
     ''/proj/temp/horizon-top-plate.kicad_pcb'' = example_top_plate"
    by code_simp
  have 10: "GetArea strict_host (plate_outline strict_host example_top_plate) \<noteq> 0"
    by code_simp
  have 11: "Save strict_host ''/proj/temp/horizon-top-plate.kicad_pcb'' example_top_plate = None"
    by (simp add: strict_host_def example_host_def)
  have w: "empty_world\<lparr>saved := saved empty_world @
      [(''/proj/temp/horizon-top-plate.kicad_pcb'', example_top_plate)]\<rparr> = top_plate_world"
    by (simp add: empty_world_def top_plate_world_def)
  from C8_unresolvable_layer [where H = strict_host and layer_name = "''Plate.Outline''"
      and er = "UnresolvableLayer ''Plate.Outline''" and board = example_board
      and d = "hd (b_drawings example_board)"
      and output_folder = "''/proj/temp''" and sfx = "''top-plate''" and w = empty_world] 1 2
  have A: "copy_drawing strict_host ''Plate.Outline'' (hd (b_drawings example_board)) =
     Inl (UnresolvableLayer ''Plate.Outline'') \<and>
   create_plate_pcb_from_layer strict_host example_board ''Plate.Outline'' ''/proj/temp''
     ''top-plate'' empty_world = (Inl (UnresolvableLayer ''Plate.Outline''), empty_world)"
    by blast
  from C8_unresolvable_layer [where H = example_host and board = undrawn_board
      and lookup = "GetLayerID strict_host" and layer_name = "''Plate.Outline''"
      and output_folder = "''/proj/temp''" and sfx = "''top-plate''" and w = empty_world] 3 4
  have B: "create_plate_pcb_from_layer strict_host undrawn_board ''Plate.Outline'' ''/proj/temp''
     ''top-plate'' empty_world = (Inr None, empty_world)"
    unfolding 5 by blast
  from C8_unresolvable_layer [where H = example_host and layer_name = "''Plate.Outline''"
      and l = "- 1" and e = 44 and s = 37 and b = 36 and board = example_board
      and output_folder = "''/proj/temp''" and sfx = "''top-plate''" and w = empty_world] 6
  have "create_plate_pcb_from_layer example_host example_board ''Plate.Outline'' ''/proj/temp''
     ''top-plate'' empty_world =
        (let path = plate_file_path (b_filename example_board) ''/proj/temp'' ''top-plate'';
             plate = derived_plate example_host (- 1) 44 37 36 example_board path
         in if GetArea example_host (plate_outline example_host plate) = 0
            then (Inr None, empty_world)
            else case Save example_host path plate of
                   Some io \<Rightarrow> (Inl io, empty_world)
                 | None \<Rightarrow> (Inr (Some plate),
                     empty_world\<lparr>saved := saved empty_world @ [(path, plate)]\<rparr>))"
    by blast
  then have C: "create_plate_pcb_from_layer example_host example_board ''Plate.Outline''
     ''/proj/temp'' ''top-plate'' empty_world = (Inr None, empty_world)"
    unfolding Let_def using 7 by simp
  from C8_unresolvable_layer [where H = strict_host and layer_name = "''F.Adhesive''"
      and l = 33 and e = 44 and s = 37 and b = 36 and board = example_board
      and output_folder = "''/proj/temp''" and sfx = "''top-plate''" and w = empty_world] 8
  have "create_plate_pcb_from_layer strict_host example_board ''F.Adhesive'' ''/proj/temp''
     ''top-plate'' empty_world =
        (let path = plate_file_path (b_filename example_board) ''/proj/temp'' ''top-plate'';
             plate = derived_plate strict_host 33 44 37 36 example_board path
         in if GetArea strict_host (plate_outline strict_host plate) = 0
            then (Inr None, empty_world)
            else case Save strict_host path plate of
                   Some io \<Rightarrow> (Inl io, empty_world)
                 | None \<Rightarrow> (Inr (Some plate),
                     empty_world\<lparr>saved := saved empty_world @ [(path, plate)]\<rparr>))"
    by blast
  then have D: "create_plate_pcb_from_layer strict_host example_board ''F.Adhesive''
     ''/proj/temp'' ''top-plate'' empty_world = (Inr (Some example_top_plate), top_plate_world)"
    unfolding Let_def example_plate_file_path 9 using 10 11 by (simp add: w)
  from A B C D show ?thesis by blast
qed

text \<open>
  A name that does not resolve, and a derivation that returns normally with no plate:
  on a board without drawings when the lookup raises, and on the example board when the
  lookup answers with the identifier of the undefined layer.
\<close>

theorem C8_counterexample:
  "GetLayerID strict_host ''Plate.Outline'' = Inl (UnresolvableLayer ''Plate.Outline'') \<and>
   create_plate_pcb_from_layer strict_host undrawn_board ''Plate.Outline'' ''/proj/temp''
     ''top-plate'' empty_world = (Inr None, empty_world) \<and>
   GetLayerID example_host ''Plate.Outline'' = Inr (- 1) \<and>
   create_plate_pcb_from_layer example_host example_board ''Plate.Outline'' ''/proj/temp''
     ''top-plate'' empty_world = (Inr None, empty_world)"
  by code_simp

subsection \<open>C9: production, board by board\<close>

text \<open>
  Claim C9, as amended. When both derivations return, \<^verbatim>\<open>produce\<close> generates the
  artifacts of the source board, of the bottom plate and of the top plate, in this order,
  leaving out a plate that is absent; on a host that writes every artifact, each of
  these boards gets its Gerber files, its drill files and its archive. An error is not
  contained: an error raised by a derivation, or by the generation of the artifacts of a
  board, ends \<^verbatim>\<open>produce\<close> with that error, and no later board is processed. The claim
  as stated, that a failure on one board does not prevent the processing of the others,
  does not hold.
\<close>

theorem C9_production:
  "(create_plate_pcb_from_layer H board ''B.Adhesive'' temp_path ''bottom-plate'' w =
      (Inr bottom_plate, w1) \<and>
    create_plate_pcb_from_layer H board ''F.Adhesive'' temp_path ''top-plate'' w1 =
      (Inr top_plate, w2) \<longrightarrow>
      produce H board temp_path output_path w =
        produce_boards H temp_path output_path
          (board # returned bottom_plate @ returned top_plate) w2) \<and>
   (writes_all H \<longrightarrow>
      produce_boards H temp_path output_path pcbs w =
        (None, w\<lparr>artifacts :=
                  artifacts w @ concat (map (artifacts_of temp_path output_path) pcbs)\<rparr>)) \<and>
   (create_plate_pcb_from_layer H board ''B.Adhesive'' temp_path ''bottom-plate'' w = (Inl e, w1) \<longrightarrow>
      produce H board temp_path output_path w = (Some e, w) \<and> w1 = w) \<and>
   (create_plate_pcb_from_layer H board ''B.Adhesive'' temp_path ''bottom-plate'' w =
      (Inr bottom_plate, w1) \<and>
    create_plate_pcb_from_layer H board ''F.Adhesive'' temp_path ''top-plate'' w1 = (Inl e, w2) \<longrightarrow>
      produce H board temp_path output_path w = (Some e, w1) \<and> w2 = w1) \<and>
   (produce_board H temp_path output_path pcb w = (Some e, w1) \<longrightarrow>
      produce_boards H temp_path output_path (pcb # pcbs) w = (Some e, w1))"
  using produce_derived [of H board temp_path w bottom_plate w1 top_plate w2 output_path]
    produce_boards_writes_all [of H temp_path output_path pcbs w]
    produce_bottom_raises [of H board temp_path w e w1 output_path]
    produce_top_raises [of H board temp_path w bottom_plate w1 e w2 output_path]
    create_plate_raises_world [of H board "''B.Adhesive''" temp_path "''bottom-plate''" w e w1]
    create_plate_raises_world [of H board "''F.Adhesive''" temp_path "''top-plate''" w1 e w2]
  by auto

text \<open>
  On the example board: no bottom plate, and the artifacts of the board and of its top
  plate.
\<close>

theorem C9_production_witness:
  "produce example_host example_board ''/proj/temp'' ''/proj/gerbers'' empty_world =
     (None,
      top_plate_world\<lparr>artifacts :=
        [Gerbers example_board ''/proj/temp/horizon'',
         DrillFiles example_board ''/proj/temp/horizon'',
         Archive ''/proj/gerbers/horizon'' ''/proj/temp/horizon'',
         Gerbers example_top_plate ''/proj/temp/horizon-top-plate'',
         DrillFiles example_top_plate ''/proj/temp/horizon-top-plate'',
         Archive ''/proj/gerbers/horizon-top-plate'' ''/proj/temp/horizon-top-plate'']\<rparr>)"
proof -
  note c = C9_production [where H = example_host and board = example_board
      and temp_path = "''/proj/temp''" and output_path = "''/proj/gerbers''"
      and w = empty_world and bottom_plate = None and ?w1.0 = empty_world
      and top_plate = "Some example_top_plate" and ?w2.0 = top_plate_world]
  from c example_bottom_plate_absent example_top_plate_derived
  have 1: "produce example_host example_board ''/proj/temp'' ''/proj/gerbers'' empty_world =
        produce_boards example_host ''/proj/temp'' ''/proj/gerbers''
          (example_board # returned None @ returned (Some example_top_plate)) top_plate_world"
    by blast
  from C9_production [where H = example_host and temp_path = "''/proj/temp''"
      and output_path = "''/proj/gerbers''" and w = top_plate_world
      and pcbs = "[example_board, example_top_plate]"] example_host_writes_all
  have 2: "produce_boards example_host ''/proj/temp'' ''/proj/gerbers''
             [example_board, example_top_plate] top_plate_world =
        (None, top_plate_world\<lparr>artifacts := artifacts top_plate_world @
           concat (map (artifacts_of ''/proj/temp'' ''/proj/gerbers'')
             [example_board, example_top_plate])\<rparr>)"
    by blast
  have 3: "artifacts_of ''/proj/temp'' ''/proj/gerbers'' example_board =
        [Gerbers example_board ''/proj/temp/horizon'',
         DrillFiles example_board ''/proj/temp/horizon'',
         Archive ''/proj/gerbers/horizon'' ''/proj/temp/horizon'']"
    by (simp add: artifacts_of_def Let_def) code_simp
  have 4: "artifacts_of ''/proj/temp'' ''/proj/gerbers'' example_top_plate =
        [Gerbers example_top_plate ''/proj/temp/horizon-top-plate'',
         DrillFiles example_top_plate ''/proj/temp/horizon-top-plate'',
         Archive ''/proj/gerbers/horizon-top-plate'' ''/proj/temp/horizon-top-plate'']"
    by (simp add: artifacts_of_def Let_def) code_simp
  have 5: "example_board # returned None @ returned (Some example_top_plate) =
        [example_board, example_top_plate]"
    by (simp add: returned_def)
  show ?thesis
    unfolding 1 5 2 by (simp add: 3 4 top_plate_world_def)
qed

text \<open>
  On a file system that refuses to save a board, the derivation of the top plate of the
  example board raises, and \<^verbatim>\<open>produce\<close> ends with no artifact written, not even for
  the source board.
\<close>

theorem C9_counterexample:
  "create_plate_pcb_from_layer readonly_host example_board ''B.Adhesive'' ''/proj/temp''
     ''bottom-plate'' empty_world = (Inr None, empty_world) \<and>
   create_plate_pcb_from_layer readonly_host example_board ''F.Adhesive'' ''/proj/temp''
     ''top-plate'' empty_world =
     (Inl (IOFailure ''/proj/temp/horizon-top-plate.kicad_pcb''), empty_world) \<and>
   produce readonly_host example_board ''/proj/temp'' ''/proj/gerbers'' empty_world =
     (Some (IOFailure ''/proj/temp/horizon-top-plate.kicad_pcb''), empty_world) \<and>
   artifacts empty_world = []"
  by code_simp

subsection \<open>C7: the source board is left as it is\<close>

text \<open>
  Claim C7. On the store of objects: whatever the derivation returns or raises, every
  object that existed before the call is afterwards as it was before, so every setter
  of the derivation has been applied to an object created by the derivation. When the
  source board and its drawings, footprints, pads and graphical items existed before
  the call, the source board has the same objects with the same values after it, and a
  derived plate consists of objects created by the call only: it shares no object with
  the source board.
\<close>

theorem C7_source_board_unmodified:
  assumes "create_plate_pcb_from_layer_ref H board layer_name output_folder sfx s w = (r, s', w')"
    and "entities s board \<subseteq> {..<allocated s}"
  shows "unchanged_below (allocated s) s s' \<and>
         board_of s' board = board_of s board \<and>
         entities s' board = entities s board \<and>
         (r = Inr (Some plate) \<longrightarrow>
            entities s' plate \<subseteq> {allocated s..} \<and>
            entities s' plate \<inter> entities s' board = {})"
proof -
  note k = create_plate_ref_keeps [OF assms(1)]
  from k(1) have u: "unchanged_below (allocated s) s s'"
    by (simp add: keeps_def)
  note same = board_of_unchanged [OF u assms(2)]
  have "entities s' plate \<subseteq> {allocated s..} \<and> entities s' plate \<inter> entities s' board = {}"
    if "r = Inr (Some plate)"
  proof -
    from k(2) [OF that] have "entities s' plate \<subseteq> {allocated s..}"
      by (simp add: new_plate_def)
    with assms(2) same(2) show ?thesis by fastforce
  qed
  with u same show ?thesis by blast
qed

text \<open>
  On the example store: the board, object 6, keeps its objects 0 to 6 and its value;
  the plate is the new object 7 and consists of the new objects 7 to 13.
\<close>

theorem C7_source_board_unmodified_witness:
  "fst example_run = Inr (Some 7) \<and>
   board_of example_store_after 6 = board_of example_store 6 \<and>
   entities example_store_after 6 = {0, 1, 2, 3, 4, 5, 6} \<and>
   entities example_store_after 7 = {7, 8, 9, 10, 11, 12, 13} \<and>
   entities example_store_after 7 \<inter> entities example_store_after 6 = {}"
proof -
  have run: "create_plate_pcb_from_layer_ref example_host 6 ''F.Adhesive'' ''/proj/temp''
      ''top-plate'' example_store empty_world =
      (fst example_run, example_store_after, snd (snd example_run))"
    by (simp add: example_run_def example_store_after_def)
  have existing: "entities example_store 6 \<subseteq> {..<allocated example_store}"
    unfolding example_store_entities by (simp add: example_store_def)
  note c = C7_source_board_unmodified [OF run existing, of 7]
  from c have 1: "board_of example_store_after 6 = board_of example_store 6"
    by blast
  from c have 2: "entities example_store_after 6 = entities example_store 6"
    by blast
  from c example_run_result
  have 3: "entities example_store_after 7 \<inter> entities example_store_after 6 = {}"
    by blast
  from 1 2 3 show ?thesis
    by (simp only: example_run_result example_store_entities example_plate_entities simp_thms)
qed

end
